theory Spec2Isabelle
  imports Main "HOL-Library.Sublist" "HOL-Library.AList"
begin

section \<open>Text operations of the installer\<close>

text \<open>
  The installer works on Python \<open>str\<close> values. They are modelled as \<open>string\<close>
  over ASCII: \<open>is_space\<close> lists the ASCII characters that \<open>str.strip()\<close> and
  \<open>str.split()\<close> treat as whitespace, \<open>is_linebreak\<close> those at which
  \<open>str.splitlines()\<close> cuts, and \<open>lower\<close> folds the letters A to Z.
\<close>

definition is_space :: "char \<Rightarrow> bool" where
  "is_space c \<longleftrightarrow>
     c \<in> set [CHR 0x09, CHR 0x0A, CHR 0x0B, CHR 0x0C, CHR 0x0D,
               CHR 0x1C, CHR 0x1D, CHR 0x1E, CHR 0x1F, CHR 0x20]"

definition is_linebreak :: "char \<Rightarrow> bool" where
  "is_linebreak c \<longleftrightarrow>
     c \<in> set [CHR 0x0A, CHR 0x0B, CHR 0x0C, CHR 0x0D, CHR 0x1C, CHR 0x1D, CHR 0x1E]"

definition lower_char :: "char \<Rightarrow> char" where
  "lower_char c =
     (case map_of (zip ''ABCDEFGHIJKLMNOPQRSTUVWXYZ'' ''abcdefghijklmnopqrstuvwxyz'') c of
        None \<Rightarrow> c
      | Some d \<Rightarrow> d)"

definition lower :: "string \<Rightarrow> string" where
  "lower s = map lower_char s"

text \<open>\<open>s.strip()\<close> and \<open>s.strip('"')\<close>.\<close>

definition strip_with :: "(char \<Rightarrow> bool) \<Rightarrow> string \<Rightarrow> string" where
  "strip_with p s = rev (dropWhile p (rev (dropWhile p s)))"

definition strip :: "string \<Rightarrow> string" where
  "strip s = strip_with is_space s"

definition strip_quotes :: "string \<Rightarrow> string" where
  "strip_quotes s = strip_with (\<lambda>c. c = CHR 0x22) s"

text \<open>\<open>s.split(sep, 1)\<close> for a one-character separator that occurs in \<open>s\<close>:
  the text before the first occurrence and the text after it.\<close>

definition before_first :: "char \<Rightarrow> string \<Rightarrow> string" where
  "before_first sep s = takeWhile (\<lambda>c. c \<noteq> sep) s"

definition after_first :: "char \<Rightarrow> string \<Rightarrow> string" where
  "after_first sep s = tl (dropWhile (\<lambda>c. c \<noteq> sep) s)"

text \<open>\<open>s.split()\<close>: the maximal runs of non-whitespace characters, in order.
  The first argument is the token read so far.\<close>

fun split_from :: "string \<Rightarrow> string \<Rightarrow> string list" where
  "split_from cur [] = (if cur = [] then [] else [cur])"
| "split_from cur (c # cs) =
     (if is_space c
      then (if cur = [] then split_from [] cs else cur # split_from [] cs)
      else split_from (cur @ [c]) cs)"

definition split_ws :: "string \<Rightarrow> string list" where
  "split_ws s = split_from [] s"

text \<open>\<open>s.splitlines()\<close>: cut at every line boundary, a carriage return followed by
  a line feed counting as one boundary; no empty last line.\<close>

fun lines_from :: "string \<Rightarrow> string \<Rightarrow> string list" where
  "lines_from cur [] = (if cur = [] then [] else [cur])"
| "lines_from cur [c] = (if is_linebreak c then [cur] else [cur @ [c]])"
| "lines_from cur (c # d # cs) =
     (if c = CHR 0x0D \<and> d = CHR 0x0A then cur # lines_from [] cs
      else if is_linebreak c then cur # lines_from [] (d # cs)
      else lines_from (cur @ [c]) (d # cs))"

definition splitlines :: "string \<Rightarrow> string list" where
  "splitlines s = lines_from [] s"

section \<open>The outside world and the trace of a run\<close>

type_synonym argv = "string list"

text \<open>Exceptions the installer can meet. \<open>OSError\<close> stands for the failure to start
  a process or to open a file (\<open>FileNotFoundError\<close>, \<open>PermissionError\<close>);
  \<open>NameError\<close> is the \<open>UnboundLocalError\<close> of reading a local that was never bound.\<close>

datatype exn =
    CalledProcessError argv int
  | OSError
  | UnicodeDecodeError
  | IndexError
  | NameError

text \<open>What a process writes to its standard output, as \<open>bytes.decode()\<close> sees it.\<close>

datatype stdout = Text string | Invalid_utf8

datatype proc_outcome = Spawn_failed | Exited int stdout

text \<open>
  Everything the script does to, or asks of, its environment is one event of the trace:
  a log line (\<open>slow_log\<close>; the pause of slow mode is not modelled), a read of
  \<open>/etc/os-release\<close>, a \<open>shutil.which\<close> lookup, an \<open>os.path.exists\<close> test,
  a \<open>platform.machine()\<close> call, a subprocess, and the three provisioning calls that
  follow installation. \<open>Log_exn\<close> and \<open>Log_dict\<close> are the log lines that append
  \<open>str(e)\<close> of an exception or \<open>str(info)\<close> of the parsed mapping to a fixed text.
\<close>

datatype event =
    Log string
  | Log_exn string exn
  | Log_dict string "(string \<times> string) list"
  | Read_os_release
  | Which string
  | Path_exists string
  | Machine
  | Subprocess argv
  | Setup_config
  | Create_directories
  | Prompt_assets

type_synonym trace = "event list"

text \<open>The commands run so far, oldest first.\<close>

fun cmds :: "trace \<Rightarrow> argv list" where
  "cmds [] = []"
| "cmds (Subprocess a # t) = a # cmds t"
| "cmds (e # t) = cmds t"

text \<open>
  The host. The script changes the system only by running commands, so what a lookup,
  a file test or a command yields may depend on the commands run before it.
\<close>

record world =
  os_release :: "exn + string list"
  machine :: string
  which :: "argv list \<Rightarrow> string \<Rightarrow> bool"
  path_exists :: "argv list \<Rightarrow> string \<Rightarrow> bool"
  spawn :: "argv list \<Rightarrow> argv \<Rightarrow> proc_outcome"

definition slow_log :: "string \<Rightarrow> trace \<Rightarrow> trace" where
  "slow_log message t = t @ [Log message]"

definition shutil_which :: "world \<Rightarrow> string \<Rightarrow> trace \<Rightarrow> bool \<times> trace" where
  "shutil_which w name t = (which w (cmds t) name, t @ [Which name])"

text \<open>\<open>subprocess.run(argv, check=True)\<close>.\<close>

definition subprocess_run :: "world \<Rightarrow> argv \<Rightarrow> trace \<Rightarrow> (exn + unit) \<times> trace" where
  "subprocess_run w a t =
     (case spawn w (cmds t) a of
        Spawn_failed \<Rightarrow> (Inl OSError, t @ [Subprocess a])
      | Exited rc out \<Rightarrow>
          if rc = 0 then (Inr (), t @ [Subprocess a])
          else (Inl (CalledProcessError a rc), t @ [Subprocess a]))"

text \<open>\<open>subprocess.check_output(argv).decode()\<close>.\<close>

definition check_output_decode :: "world \<Rightarrow> argv \<Rightarrow> trace \<Rightarrow> (exn + string) \<times> trace" where
  "check_output_decode w a t =
     (case spawn w (cmds t) a of
        Spawn_failed \<Rightarrow> (Inl OSError, t @ [Subprocess a])
      | Exited rc out \<Rightarrow>
          if rc \<noteq> 0 then (Inl (CalledProcessError a rc), t @ [Subprocess a])
          else (case out of
                  Invalid_utf8 \<Rightarrow> (Inl UnicodeDecodeError, t @ [Subprocess a])
                | Text s \<Rightarrow> (Inr s, t @ [Subprocess a])))"

section \<open>detect_distro\<close>

type_synonym info = "(string \<times> string) list"

text \<open>The body of the loop over the lines of \<open>/etc/os-release\<close>.\<close>

definition parse_line :: "info \<Rightarrow> string \<Rightarrow> info" where
  "parse_line info line =
     (if CHR ''='' \<in> set line
      then AList.update (lower (before_first CHR ''='' (strip line)))
                        (lower (strip_quotes (after_first CHR ''='' (strip line)))) info
      else info)"

definition parse_os_release :: "string list \<Rightarrow> info" where
  "parse_os_release lines = foldl parse_line [] lines"

text \<open>The \<open>if "id_like" in info\<close> block, starting from \<open>distro = "unknown"\<close>.\<close>

definition classify_id_like :: "info \<Rightarrow> string" where
  "classify_id_like info =
     (case map_of info ''id_like'' of
        None \<Rightarrow> ''unknown''
      | Some v \<Rightarrow>
          if sublist ''debian'' v then ''debian''
          else if sublist ''fedora'' v then ''fedora''
          else if sublist ''arch'' v then ''arch''
          else if sublist ''void'' v then ''void''
          else if sublist ''solus'' v then ''solus''
          else ''unknown'')"

text \<open>The \<open>if distro == "unknown" and "id" in info\<close> block.\<close>

definition classify_id :: "info \<Rightarrow> string \<Rightarrow> string" where
  "classify_id info distro =
     (if distro = ''unknown''
      then (case map_of info ''id'' of
              None \<Rightarrow> distro
            | Some i \<Rightarrow>
                if i \<in> set [''debian'', ''ubuntu'', ''linuxmint''] then ''debian''
                else if i \<in> set [''fedora'', ''centos'', ''rhel''] then ''fedora''
                else if i \<in> set [''arch'', ''manjaro'', ''cachyos''] then ''arch''
                else if i = ''void'' then ''void''
                else if i = ''solus'' then ''solus''
                else distro)
      else distro)"

definition classify :: "info \<Rightarrow> string" where
  "classify info = classify_id info (classify_id_like info)"

text \<open>Reading the file is the only step of the \<open>try\<close> block that can raise; the
  handler logs the error and leaves \<open>distro\<close> at \<open>"unknown"\<close>.\<close>

definition detect_distro :: "world \<Rightarrow> trace \<Rightarrow> string \<times> trace" where
  "detect_distro w t =
     (let t1 = slow_log ''Detecting Linux distribution by reading /etc/os-release...'' t @
               [Read_os_release]
      in case os_release w of
           Inl e \<Rightarrow>
             (''unknown'',
              slow_log (''Determined distribution: '' @ ''unknown'')
                (t1 @ [Log_exn ''Error reading /etc/os-release: '' e]))
         | Inr lines \<Rightarrow>
             (classify (parse_os_release lines),
              slow_log (''Determined distribution: '' @ classify (parse_os_release lines))
                (t1 @ [Log_dict ''Parsed /etc/os-release: '' (parse_os_release lines)])))"

section \<open>is_vkbasalt_installed\<close>

definition known_locations :: "(string \<times> string) list" where
  "known_locations =
     [(''/usr/lib/libvkbasalt.so'', ''Library file''),
      (''/usr/share/vulkan/implicit_layer.d/vkBasalt.json'', ''Vulkan layer config''),
      (''/usr/share/vkbasalt/vkBasalt.conf.example'', ''Example config file'')]"

text \<open>The loop over the binary names: the first one found on the PATH ends the search.\<close>

fun find_binary :: "world \<Rightarrow> string list \<Rightarrow> trace \<Rightarrow> bool \<times> trace" where
  "find_binary w [] t = (False, t)"
| "find_binary w (binary # rest) t =
     (if fst (shutil_which w binary t)
      then (True, slow_log (''Found binary '' @ binary @ '' in PATH.'')
                    (snd (shutil_which w binary t)))
      else find_binary w rest (snd (shutil_which w binary t)))"

text \<open>The loop over the known locations: every path is tested, none ends the loop.\<close>

fun scan_locations :: "world \<Rightarrow> (string \<times> string) list \<Rightarrow> bool \<Rightarrow> trace \<Rightarrow> bool \<times> trace" where
  "scan_locations w [] found t = (found, t)"
| "scan_locations w ((path, desc) # rest) found t =
     (if path_exists w (cmds t) path
      then scan_locations w rest True
             (slow_log (''Found '' @ desc @ '' at '' @ path @ ''.'') (t @ [Path_exists path]))
      else scan_locations w rest found (t @ [Path_exists path]))"

text \<open>\<open>custom_path\<close> is the global \<open>CUSTOM_PATH\<close>: \<open>None\<close> unless \<open>main\<close> set it.\<close>

definition is_vkbasalt_installed :: "world \<Rightarrow> string option \<Rightarrow> trace \<Rightarrow> bool \<times> trace" where
  "is_vkbasalt_installed w custom_path t =
     (case find_binary w [''vkbasalt'', ''vkBasalt'']
             (slow_log ''Checking if vkbasalt is installed (searching in PATH)...'' t) of
        (True, t1) \<Rightarrow> (True, t1)
      | (False, t1) \<Rightarrow>
          (case scan_locations w
                  (case custom_path of
                     None \<Rightarrow> known_locations
                   | Some p \<Rightarrow>
                       if p \<noteq> [] then AList.update p ''Custom provided path'' known_locations
                       else known_locations)
                  False
                  (slow_log ''Not found in PATH; checking known locations...'' t1) of
             (found, t2) \<Rightarrow>
               (found,
                slow_log (if found then ''vkBasalt detected (Vulkan layer installed).''
                          else ''vkbasalt not found in expected locations.'') t2)))"

section \<open>is_vkbasalt_up_to_date_with_aur\<close>

text \<open>The loop over the lines of the query-available output. It binds \<open>latest\<close> at the
  first line that starts with "version" when lowered, and stops there; indexing the
  split of a line without a colon raises. \<open>Inr None\<close>: the loop ended and \<open>latest\<close>
  is unbound.\<close>

fun find_latest :: "string list \<Rightarrow> exn + string option" where
  "find_latest [] = Inr None"
| "find_latest (line # rest) =
     (if prefix ''version'' (lower line)
      then (if CHR '':'' \<in> set line then Inr (Some (strip (after_first CHR '':'' line)))
            else Inl IndexError)
      else find_latest rest)"

text \<open>The comparison that ends the \<open>try\<close> block.\<close>

definition compare_versions :: "string \<Rightarrow> string option \<Rightarrow> trace \<Rightarrow> (exn + bool) \<times> trace" where
  "compare_versions installed latest t =
     (case latest of
        None \<Rightarrow> (Inl NameError, t)
      | Some l \<Rightarrow>
          if installed = l
          then (Inr True, slow_log (''vkbasalt is already the latest version: '' @ installed) t)
          else (Inr False,
                slow_log (''vkbasalt is outdated. Installed: '' @ installed @ '', Latest: '' @ l) t))"

text \<open>The second statement of the \<open>try\<close> block and what follows it.\<close>

definition query_available :: "world \<Rightarrow> string \<Rightarrow> string \<Rightarrow> trace \<Rightarrow> (exn + bool) \<times> trace" where
  "query_available w aur_helper installed t =
     (case check_output_decode w [aur_helper, ''-Si'', ''vkbasalt''] t of
        (Inl e, t1) \<Rightarrow> (Inl e, t1)
      | (Inr available_output, t1) \<Rightarrow>
          (case find_latest (splitlines available_output) of
             Inl e \<Rightarrow> (Inl e, t1)
           | Inr latest \<Rightarrow> compare_versions installed latest t1))"

text \<open>The \<open>try\<close> block.\<close>

definition up_to_date_try :: "world \<Rightarrow> string \<Rightarrow> trace \<Rightarrow> (exn + bool) \<times> trace" where
  "up_to_date_try w aur_helper t =
     (case check_output_decode w [aur_helper, ''-Q'', ''vkbasalt''] t of
        (Inl e, t1) \<Rightarrow> (Inl e, t1)
      | (Inr out, t1) \<Rightarrow>
          (case split_ws (strip out) of
             _ # installed # _ \<Rightarrow> query_available w aur_helper installed t1
           | _ \<Rightarrow> (Inl IndexError, t1)))"

text \<open>The handler catches \<open>CalledProcessError\<close> and nothing else.\<close>

definition is_vkbasalt_up_to_date_with_aur :: "world \<Rightarrow> string \<Rightarrow> trace \<Rightarrow> (exn + bool) \<times> trace" where
  "is_vkbasalt_up_to_date_with_aur w aur_helper t =
     (case up_to_date_try w aur_helper t of
        (Inl (CalledProcessError a rc), t1) \<Rightarrow> (Inr False, t1)
      | r \<Rightarrow> r)"

section \<open>The AUR helper used after pacman has failed\<close>

text \<open>The loop \<open>for helper in ["yay", "paru"]\<close>.\<close>

fun probe_helpers :: "world \<Rightarrow> string list \<Rightarrow> trace \<Rightarrow> string option \<times> trace" where
  "probe_helpers w [] t = (None, t)"
| "probe_helpers w (helper # rest) t =
     (if fst (shutil_which w helper t) then (Some helper, snd (shutil_which w helper t))
      else probe_helpers w rest (snd (shutil_which w helper t)))"

text \<open>The same five lines stand in \<open>install_vkbasalt\<close> and in \<open>uninstall_vkbasalt\<close>:
  \<open>helper_used = aur_helper if aur_helper and shutil.which(aur_helper) else None\<close>,
  then the loop if \<open>helper_used\<close> is still unset. An empty \<open>aur_helper\<close> is not
  looked up.\<close>

definition resolve_helper :: "world \<Rightarrow> string \<Rightarrow> trace \<Rightarrow> string option \<times> trace" where
  "resolve_helper w aur_helper t =
     (if aur_helper \<noteq> []
      then (if fst (shutil_which w aur_helper t)
            then (Some aur_helper, snd (shutil_which w aur_helper t))
            else probe_helpers w [''yay'', ''paru''] (snd (shutil_which w aur_helper t)))
      else probe_helpers w [''yay'', ''paru''] t)"

section \<open>install_vkbasalt\<close>

text \<open>Two commands in a row, the second only if the first returned.\<close>

definition run_both :: "world \<Rightarrow> argv \<Rightarrow> argv \<Rightarrow> trace \<Rightarrow> (exn + unit) \<times> trace" where
  "run_both w a b t =
     (case subprocess_run w a t of
        (Inl e, t1) \<Rightarrow> (Inl e, t1)
      | (Inr u, t1) \<Rightarrow> subprocess_run w b t1)"

text \<open>The handler of the inner \<open>try\<close> of the arch branch: resolve a helper, ask it
  whether the package is current, install through it otherwise.\<close>

definition install_via_helper :: "world \<Rightarrow> string \<Rightarrow> trace \<Rightarrow> (exn + unit) \<times> trace" where
  "install_via_helper w aur_helper t =
     (case resolve_helper w aur_helper
             (slow_log ''Pacman did not find/update vkbasalt. Checking for an AUR helper...'' t) of
        (None, t1) \<Rightarrow>
          (Inr (), slow_log ''No AUR helper found. Please install vkbasalt manually.'' t1)
      | (Some helper_used, t1) \<Rightarrow>
          (case is_vkbasalt_up_to_date_with_aur w helper_used t1 of
             (Inl e, t2) \<Rightarrow> (Inl e, t2)
           | (Inr True, t2) \<Rightarrow>
               (Inr (),
                slow_log (''vkbasalt is already installed and up-to-date via '' @ helper_used @ ''.'')
                  t2)
           | (Inr False, t2) \<Rightarrow>
               subprocess_run w [helper_used, ''-S'', ''--needed'', ''--noconfirm'', ''vkbasalt'']
                 (slow_log (''Installing/updating vkbasalt via '' @ helper_used @ ''...'') t2)))"

definition install_arch :: "world \<Rightarrow> string \<Rightarrow> trace \<Rightarrow> (exn + unit) \<times> trace" where
  "install_arch w aur_helper t =
     (case subprocess_run w [''sudo'', ''pacman'', ''-Syu'', ''vkbasalt'', ''--noconfirm'']
             (slow_log ''Installing vkbasalt via pacman...'' t) of
        (Inl (CalledProcessError a rc), t1) \<Rightarrow> install_via_helper w aur_helper t1
      | r \<Rightarrow> r)"

text \<open>The body of the outer \<open>try\<close>: the dispatch on the distribution.\<close>

definition install_dispatch :: "world \<Rightarrow> string \<Rightarrow> string \<Rightarrow> trace \<Rightarrow> (exn + unit) \<times> trace" where
  "install_dispatch w distro aur_helper t =
     (if distro = ''debian''
      then run_both w [''sudo'', ''apt-get'', ''update'']
             [''sudo'', ''apt-get'', ''install'', ''-y'', ''vkbasalt'']
             (slow_log ''Installing vkbasalt via apt-get...'' t)
      else if distro = ''fedora''
      then subprocess_run w [''sudo'', ''dnf'', ''install'', ''-y'', ''vkbasalt'']
             (slow_log ''Installing vkbasalt via dnf...'' t)
      else if distro = ''arch'' then install_arch w aur_helper t
      else if distro = ''void''
      then subprocess_run w [''sudo'', ''xbps-install'', ''-S'', ''vkbasalt'']
             (slow_log ''Installing vkbasalt via xbps-install...'' t)
      else if distro = ''solus''
      then run_both w [''sudo'', ''eopkg'', ''update'']
             [''sudo'', ''eopkg'', ''install'', ''vkbasalt'']
             (slow_log ''Installing vkbasalt via eopkg...'' t)
      else (Inr (),
            slow_log ''Unsupported Linux distribution. Cannot install vkbasalt automatically.'' t))"

text \<open>The Flatpak branch runs its command outside every \<open>try\<close>.\<close>

definition install_flatpak :: "world \<Rightarrow> string \<Rightarrow> trace \<Rightarrow> (exn + unit) \<times> trace" where
  "install_flatpak w flatpak_pkg t =
     (if \<not> fst (shutil_which w ''flatpak'' t)
      then (Inr (),
            slow_log ''Flatpak is not installed. Cannot proceed with Flatpak installation.''
              (snd (shutil_which w ''flatpak'' t)))
      else subprocess_run w
             [''flatpak'', ''install'', ''--user'', ''--noninteractive'', ''flathub'', flatpak_pkg]
             (slow_log ''Installing vkbasalt via Flatpak...'' (snd (shutil_which w ''flatpak'' t))))"

definition install_vkbasalt ::
  "world \<Rightarrow> string \<Rightarrow> bool \<Rightarrow> string \<Rightarrow> string \<Rightarrow> trace \<Rightarrow> (exn + unit) \<times> trace" where
  "install_vkbasalt w distro use_flatpak flatpak_pkg aur_helper t =
     (if use_flatpak then install_flatpak w flatpak_pkg t
      else if machine w \<noteq> ''x86_64''
      then (Inr (),
            slow_log (''Only 64-bit systems are supported. Your system architecture: '' @ machine w)
              (slow_log (''System architecture detected: '' @ machine w) (t @ [Machine])))
      else (case install_dispatch w distro aur_helper
                   (slow_log (''System architecture detected: '' @ machine w) (t @ [Machine])) of
              (Inl (CalledProcessError a rc), t1) \<Rightarrow>
                (Inr (),
                 t1 @ [Log_exn ''An error occurred during installation: '' (CalledProcessError a rc)])
            | r \<Rightarrow> r))"

section \<open>uninstall_vkbasalt\<close>

definition uninstall_via_helper :: "world \<Rightarrow> string \<Rightarrow> trace \<Rightarrow> (exn + unit) \<times> trace" where
  "uninstall_via_helper w aur_helper t =
     (case resolve_helper w aur_helper
             (slow_log ''Pacman removal failed. Checking for an AUR helper...'' t) of
        (None, t1) \<Rightarrow>
          (Inr (),
           slow_log ''No AUR helper found. Cannot uninstall vkbasalt automatically for Arch.'' t1)
      | (Some helper_used, t1) \<Rightarrow>
          subprocess_run w [helper_used, ''-Rns'', ''--noconfirm'', ''vkbasalt''] t1)"

definition uninstall_arch :: "world \<Rightarrow> string \<Rightarrow> trace \<Rightarrow> (exn + unit) \<times> trace" where
  "uninstall_arch w aur_helper t =
     (case subprocess_run w [''sudo'', ''pacman'', ''-Rns'', ''--noconfirm'', ''vkbasalt'']
             (slow_log ''Uninstalling vkbasalt via pacman...'' t) of
        (Inl (CalledProcessError a rc), t1) \<Rightarrow> uninstall_via_helper w aur_helper t1
      | r \<Rightarrow> r)"

definition uninstall_dispatch :: "world \<Rightarrow> string \<Rightarrow> string \<Rightarrow> trace \<Rightarrow> (exn + unit) \<times> trace" where
  "uninstall_dispatch w distro aur_helper t =
     (if distro = ''debian''
      then subprocess_run w [''sudo'', ''apt-get'', ''remove'', ''-y'', ''vkbasalt'']
             (slow_log ''Uninstalling vkbasalt via apt-get...'' t)
      else if distro = ''fedora''
      then subprocess_run w [''sudo'', ''dnf'', ''remove'', ''-y'', ''vkbasalt'']
             (slow_log ''Uninstalling vkbasalt via dnf...'' t)
      else if distro = ''arch'' then uninstall_arch w aur_helper t
      else if distro = ''void''
      then subprocess_run w [''sudo'', ''xbps-remove'', ''-R'', ''vkbasalt'']
             (slow_log ''Uninstalling vkbasalt via xbps-remove...'' t)
      else if distro = ''solus''
      then subprocess_run w [''sudo'', ''eopkg'', ''remove'', ''vkbasalt'']
             (slow_log ''Uninstalling vkbasalt via eopkg...'' t)
      else (Inr (),
            slow_log ''Unsupported Linux distribution. Cannot uninstall vkbasalt automatically.'' t))"

definition uninstall_flatpak :: "world \<Rightarrow> string \<Rightarrow> trace \<Rightarrow> (exn + unit) \<times> trace" where
  "uninstall_flatpak w flatpak_pkg t =
     (if \<not> fst (shutil_which w ''flatpak'' t)
      then (Inr (),
            slow_log ''Flatpak is not installed. Cannot proceed with uninstallation.''
              (snd (shutil_which w ''flatpak'' t)))
      else subprocess_run w [''flatpak'', ''uninstall'', ''--user'', ''-y'', flatpak_pkg]
             (slow_log ''Uninstalling vkbasalt via Flatpak...'' (snd (shutil_which w ''flatpak'' t))))"

definition uninstall_vkbasalt ::
  "world \<Rightarrow> string \<Rightarrow> bool \<Rightarrow> string \<Rightarrow> string \<Rightarrow> trace \<Rightarrow> (exn + unit) \<times> trace" where
  "uninstall_vkbasalt w distro use_flatpak flatpak_pkg aur_helper t =
     (if use_flatpak then uninstall_flatpak w flatpak_pkg t
      else (case uninstall_dispatch w distro aur_helper t of
              (Inl (CalledProcessError a rc), t1) \<Rightarrow>
                (Inr (),
                 t1 @ [Log_exn ''An error occurred during uninstallation: ''
                         (CalledProcessError a rc)])
            | r \<Rightarrow> r))"

section \<open>main\<close>

text \<open>The parsed command line. \<open>force_distro\<close> and \<open>custom_path\<close> have no default;
  \<open>aur_helper\<close> defaults to the empty string.\<close>

record args =
  slow :: bool
  force_distro :: "string option"
  uninstall :: bool
  flatpak :: bool
  flatpak_pkg :: string
  custom_path :: "string option"
  aur_helper :: string

text \<open>The three calls that follow installation: seeding the configuration, creating
  the directories, offering the download. They lie outside the part of the script studied
  here; each is one event of the trace.\<close>

definition provision :: "trace \<Rightarrow> (exn + unit) \<times> trace" where
  "provision t = (Inr (), t @ [Setup_config, Create_directories, Prompt_assets])"

text \<open>The first lines of \<open>main\<close>: the logging mode and the global \<open>CUSTOM_PATH\<close>.\<close>

definition configure :: "args \<Rightarrow> string option \<times> trace" where
  "configure a =
     (case custom_path a of
        None \<Rightarrow>
          (None, slow_log (if slow a then ''Slow logging mode enabled.''
                           else ''Normal logging mode.'') [])
      | Some p \<Rightarrow>
          if p \<noteq> []
          then (Some p,
                slow_log (''Using custom detection path: '' @ p)
                  (slow_log (if slow a then ''Slow logging mode enabled.''
                             else ''Normal logging mode.'') []))
          else (None, slow_log (if slow a then ''Slow logging mode enabled.''
                                else ''Normal logging mode.'') []))"

text \<open>The distribution of the run: detected, then replaced by a non-empty
  \<open>--force-distro\<close> value.\<close>

definition run_distro :: "world \<Rightarrow> args \<Rightarrow> trace \<Rightarrow> string \<times> trace" where
  "run_distro w a t =
     (case detect_distro w t of
        (detected, t1) \<Rightarrow>
          (case force_distro a of
             None \<Rightarrow> (detected, slow_log (''Detected distribution: '' @ detected) t1)
           | Some s \<Rightarrow>
               if s \<noteq> []
               then (lower s,
                     slow_log (''Detected distribution: '' @ lower s)
                       (slow_log (''Overriding detected distro with: '' @ lower s) t1))
               else (detected, slow_log (''Detected distribution: '' @ detected) t1)))"

text \<open>The last four lines of \<open>main\<close>.\<close>

definition install_and_provision :: "world \<Rightarrow> args \<Rightarrow> string \<Rightarrow> trace \<Rightarrow> (exn + unit) \<times> trace" where
  "install_and_provision w a distro t =
     (case install_vkbasalt w distro (flatpak a) (flatpak_pkg a) (aur_helper a)
             (slow_log
                ''vkBasalt is not installed or is outdated. Proceeding with installation...'' t) of
        (Inl e, t1) \<Rightarrow> (Inl e, t1)
      | (Inr u, t1) \<Rightarrow> provision t1)"

text \<open>\<open>main\<close> from \<open>if is_vkbasalt_installed()\<close> on.\<close>

definition install_mode ::
  "world \<Rightarrow> args \<Rightarrow> string option \<Rightarrow> string \<Rightarrow> trace \<Rightarrow> (exn + unit) \<times> trace" where
  "install_mode w a cpath distro t =
     (case is_vkbasalt_installed w cpath t of
        (False, t1) \<Rightarrow> install_and_provision w a distro t1
      | (True, t1) \<Rightarrow>
          if distro = ''arch'' \<and> aur_helper a \<noteq> []
          then (case is_vkbasalt_up_to_date_with_aur w (aur_helper a) t1 of
                  (Inl e, t2) \<Rightarrow> (Inl e, t2)
                | (Inr True, t2) \<Rightarrow>
                    provision
                      (slow_log ''vkBasalt is installed and up-to-date. Skipping installation.'' t2)
                | (Inr False, t2) \<Rightarrow> install_and_provision w a distro t2)
          else provision (slow_log ''vkBasalt is already installed. Skipping installation.'' t1))"

definition main :: "world \<Rightarrow> args \<Rightarrow> (exn + unit) \<times> trace" where
  "main w a =
     (case configure a of
        (cpath, t0) \<Rightarrow>
          (case run_distro w a t0 of
             (distro, t1) \<Rightarrow>
               if uninstall a
               then uninstall_vkbasalt w distro (flatpak a) (flatpak_pkg a) (aur_helper a)
                      (slow_log ''Uninstall mode activated.'' t1)
               else install_mode w a cpath distro t1))"

section \<open>The specification's wording, for comparison\<close>

text \<open>
  The specification describes the available version as taken from the line "whose key
  (before the first colon, case-insensitive) equals version", and the result as the
  equality of the two version strings. The definitions below follow those words; they are
  compared with \<open>is_vkbasalt_up_to_date_with_aur\<close> further down. The key is trimmed,
  as the specification's own example \<open>Version : 1.2.3\<close> needs.
\<close>

definition spec_key_is_version :: "string \<Rightarrow> bool" where
  "spec_key_is_version line \<longleftrightarrow>
     CHR '':'' \<in> set line \<and> lower (strip (before_first CHR '':'' line)) = ''version''"

definition spec_available_version :: "string \<Rightarrow> string option" where
  "spec_available_version available_output =
     map_option (\<lambda>line. strip (after_first CHR '':'' line))
       (find spec_key_is_version (splitlines available_output))"

definition spec_installed_version :: "string \<Rightarrow> string option" where
  "spec_installed_version installed_output =
     (case split_ws installed_output of _ # v # _ \<Rightarrow> Some v | _ \<Rightarrow> None)"

definition spec_is_up_to_date :: "string \<Rightarrow> string \<Rightarrow> bool" where
  "spec_is_up_to_date installed_output available_output \<longleftrightarrow>
     spec_installed_version installed_output \<noteq> None \<and>
     spec_installed_version installed_output = spec_available_version available_output"

text \<open>
  The specification's resolution order for the fallback helper: the operator-supplied
  name if one is given and it is resolvable on the PATH, otherwise the first resolvable
  name of the priority list, otherwise absent.
\<close>

definition spec_resolve_fallback :: "(string \<Rightarrow> bool) \<Rightarrow> string \<Rightarrow> string option" where
  "spec_resolve_fallback resolvable preferred =
     (if preferred \<noteq> [] \<and> resolvable preferred then Some preferred
      else find resolvable [''yay'', ''paru''])"

section \<open>Reading a trace\<close>

text \<open>
  The events that only the presence check and provisioning produce: the first log line
  of \<open>is_vkbasalt_installed\<close>, its file tests, and the three provisioning calls.
\<close>

fun beyond_removal :: "event \<Rightarrow> bool" where
  "beyond_removal (Log m) = (m = ''Checking if vkbasalt is installed (searching in PATH)...'')"
| "beyond_removal (Path_exists p) = True"
| "beyond_removal Setup_config = True"
| "beyond_removal Create_directories = True"
| "beyond_removal Prompt_assets = True"
| "beyond_removal e = False"

text \<open>The first command of each branch of the dispatch in \<open>uninstall_vkbasalt\<close>.\<close>

definition native_remove :: "string \<Rightarrow> argv option" where
  "native_remove distro =
     map_of [(''debian'', [''sudo'', ''apt-get'', ''remove'', ''-y'', ''vkbasalt'']),
             (''fedora'', [''sudo'', ''dnf'', ''remove'', ''-y'', ''vkbasalt'']),
             (''arch'', [''sudo'', ''pacman'', ''-Rns'', ''--noconfirm'', ''vkbasalt'']),
             (''void'', [''sudo'', ''xbps-remove'', ''-R'', ''vkbasalt'']),
             (''solus'', [''sudo'', ''eopkg'', ''remove'', ''vkbasalt''])] distro"

section \<open>Example hosts and command lines\<close>

definition LF :: char where
  "LF = CHR 0x0A"

text \<open>An Ubuntu-named system that declares itself Arch-like, and one that lists two
  families in \<open>ID_LIKE\<close>.\<close>

definition arch_like_lines :: "string list" where
  "arch_like_lines = [''NAME=Example'' @ [LF], ''ID=ubuntu'' @ [LF], ''ID_LIKE=arch'' @ [LF]]"

definition mixed_like_lines :: "string list" where
  "mixed_like_lines = [''ID=arch'' @ [LF], ''ID_LIKE=\"arch debian\"'' @ [LF]]"

definition nothing :: "string \<Rightarrow> bool" where
  "nothing n \<longleftrightarrow> False"

definition only :: "string list \<Rightarrow> string \<Rightarrow> bool" where
  "only names n \<longleftrightarrow> n \<in> set names"

text \<open>A helper that answers the two version queries and fails every other command.\<close>

definition helper_replies :: "string \<Rightarrow> string \<Rightarrow> string \<Rightarrow> argv \<Rightarrow> proc_outcome" where
  "helper_replies helper installed_output available_output a =
     (if a = [helper, ''-Q'', ''vkbasalt''] then Exited 0 (Text installed_output)
      else if a = [helper, ''-Si'', ''vkbasalt''] then Exited 0 (Text available_output)
      else Exited 1 (Text []))"

text \<open>A system on which one program does not exist and every other command succeeds.\<close>

definition missing_program :: "string \<Rightarrow> argv \<Rightarrow> proc_outcome" where
  "missing_program name a =
     (case a of
        [] \<Rightarrow> Spawn_failed
      | p # _ \<Rightarrow> if p = name then Spawn_failed else Exited 0 (Text []))"

text \<open>A host whose answers do not change during the run.\<close>

definition static_host ::
  "string list \<Rightarrow> string \<Rightarrow> (string \<Rightarrow> bool) \<Rightarrow> (string \<Rightarrow> bool) \<Rightarrow> (argv \<Rightarrow> proc_outcome) \<Rightarrow> world" where
  "static_host lines arch on_path existing run =
     \<lparr>os_release = Inr lines, machine = arch, which = (\<lambda>h. on_path),
      path_exists = (\<lambda>h. existing), spawn = (\<lambda>h. run)\<rparr>"

definition installed_123 :: string where
  "installed_123 = ''vkbasalt 1.2.3'' @ [LF]"

definition available_123 :: string where
  "available_123 =
     ''Repository      : aur'' @ [LF] @ ''Name            : vkbasalt'' @ [LF] @
     ''Version         : 1.2.3'' @ [LF] @ ''Description     : a layer'' @ [LF]"

definition available_124 :: string where
  "available_124 =
     ''Repository      : aur'' @ [LF] @ ''Name            : vkbasalt'' @ [LF] @
     ''Version         : 1.2.4'' @ [LF] @ ''Description     : a layer'' @ [LF]"

definition available_prefixed :: string where
  "available_prefixed = ''Versioned: none'' @ [LF] @ ''Version: 1.2.3'' @ [LF]"

definition available_no_version :: string where
  "available_no_version =
     ''Repository      : aur'' @ [LF] @ ''Name            : vkbasalt'' @ [LF]"

definition default_args :: args where
  "default_args =
     \<lparr>slow = False, force_distro = None, uninstall = False, flatpak = False,
      flatpak_pkg = ''org.vkbasalt.vkbasalt'', custom_path = None, aur_helper = []\<rparr>"

text \<open>Commands that all end with the same exit status, and the hosts built on them.\<close>

definition always_exits :: "int \<Rightarrow> argv \<Rightarrow> proc_outcome" where
  "always_exits rc a = Exited rc (Text [])"

definition fedora_lines :: "string list" where
  "fedora_lines = [''NAME=Fedora'' @ [LF], ''ID=fedora'' @ [LF]]"

definition fedora_host :: "string \<Rightarrow> (string \<Rightarrow> bool) \<Rightarrow> int \<Rightarrow> world" where
  "fedora_host arch on_path rc = static_host fedora_lines arch on_path nothing (always_exits rc)"

definition arch_host :: "(string \<Rightarrow> bool) \<Rightarrow> world" where
  "arch_host on_path = static_host arch_like_lines ''x86_64'' on_path nothing (always_exits 1)"

text \<open>An arch-like host with vkbasalt and the helper \<open>paru\<close> on the PATH; \<open>paru\<close>
  reports version 1.2.3 as installed and the given text as available.\<close>

definition paru_host :: "string \<Rightarrow> world" where
  "paru_host available_output =
     static_host arch_like_lines ''x86_64'' (only [''vkbasalt'', ''paru'']) nothing
       (helper_replies ''paru'' installed_123 available_output)"

section \<open>Facts about the text operations\<close>

lemma split_from_spaces:
  "\<forall>x\<in>set cs. is_space x \<Longrightarrow> split_from cur cs = (if cur = [] then [] else [cur])"
  by (induction cs arbitrary: cur) auto

lemma split_from_rstrip:
  "split_from cur (rev (dropWhile is_space (rev s))) = split_from cur s"
  by (induction s arbitrary: cur) (auto simp: dropWhile_append split_from_spaces)

lemma split_from_lstrip: "split_from [] (dropWhile is_space s) = split_from [] s"
  by (induction s) auto

text \<open>Stripping the output before splitting it changes nothing.\<close>

lemma split_ws_strip: "split_ws (strip s) = split_ws s"
  by (simp add: split_ws_def strip_def strip_with_def split_from_rstrip split_from_lstrip)

lemma find_latest_find:
  "find_latest ls =
     (case find (\<lambda>l. prefix ''version'' (lower l)) ls of
        None \<Rightarrow> Inr None
      | Some l \<Rightarrow> if CHR '':'' \<in> set l then Inr (Some (strip (after_first CHR '':'' l)))
                  else Inl IndexError)"
  by (induction ls) auto

section \<open>Facts about detection\<close>

lemma classify_first_match:
  assumes "map_of info ''id_like'' = Some v"
    and "find (\<lambda>n. sublist n v) [''debian'', ''fedora'', ''arch'', ''void'', ''solus''] = Some d"
  shows "classify info = d"
  using assms by (auto simp: classify_def classify_id_like_def classify_id_def split: if_splits)

lemma classify_no_match:
  assumes "map_of info ''id_like'' = Some v"
    and "find (\<lambda>n. sublist n v) [''debian'', ''fedora'', ''arch'', ''void'', ''solus''] = None"
  shows "classify info = classify_id info ''unknown''"
  using assms by (auto simp: classify_def classify_id_like_def split: if_splits)

lemma detect_distro_classify:
  "os_release w = Inr lines \<Longrightarrow> fst (detect_distro w t) = classify (parse_os_release lines)"
  by (simp add: detect_distro_def Let_def)

section \<open>Facts about the commands of a trace\<close>

lemma cmds_append: "cmds (t @ u) = cmds t @ cmds u"
  by (induction t rule: cmds.induct) auto

lemma cmds_slow_log: "cmds (slow_log m t) = cmds t"
  by (simp add: slow_log_def cmds_append)

section \<open>Facts about the up-to-date check\<close>

lemma check_output_decode_ok:
  "spawn w (cmds t) a = Exited 0 (Text s) \<Longrightarrow>
   check_output_decode w a t = (Inr s, t @ [Subprocess a])"
  by (simp add: check_output_decode_def)

text \<open>With both queries answered and a second token in the first answer, the \<open>try\<close>
  block reaches the scan of the second answer.\<close>

lemma up_to_date_parsed:
  assumes "spawn w (cmds t) [h, ''-Q'', ''vkbasalt''] = Exited 0 (Text out1)"
    and "split_ws out1 = pkg # installed # rest"
    and "spawn w (cmds t @ [[h, ''-Q'', ''vkbasalt'']]) [h, ''-Si'', ''vkbasalt''] =
           Exited 0 (Text out2)"
  shows "up_to_date_try w h t =
           (case find_latest (splitlines out2) of
              Inl e \<Rightarrow>
                (Inl e, t @ [Subprocess [h, ''-Q'', ''vkbasalt''],
                             Subprocess [h, ''-Si'', ''vkbasalt'']])
            | Inr latest \<Rightarrow>
                compare_versions installed latest
                  (t @ [Subprocess [h, ''-Q'', ''vkbasalt''],
                        Subprocess [h, ''-Si'', ''vkbasalt'']]))"
  using assms
  by (simp add: up_to_date_try_def query_available_def check_output_decode_ok split_ws_strip
      cmds_append split: sum.splits)

section \<open>Commands\<close>

lemma shutil_which_cmds: "cmds (snd (shutil_which w n t)) = cmds t"
  by (simp add: shutil_which_def cmds_append)

lemma shutil_which_fst: "fst (shutil_which w n t) = which w (cmds t) n"
  by (simp add: shutil_which_def)

lemma subprocess_run_cmds: "cmds (snd (subprocess_run w a t)) = cmds t @ [a]"
  by (simp add: subprocess_run_def cmds_append split: proc_outcome.splits)

lemma find_binary_cmds: "cmds (snd (find_binary w bs t)) = cmds t"
  by (induction bs arbitrary: t) (simp_all add: shutil_which_cmds cmds_slow_log)

lemma scan_locations_cmds: "cmds (snd (scan_locations w ls f t)) = cmds t"
  by (induction w ls f t rule: scan_locations.induct) (simp_all add: cmds_slow_log cmds_append)

lemma is_vkbasalt_installed_cmds: "cmds (snd (is_vkbasalt_installed w c t)) = cmds t"
  by (simp add: is_vkbasalt_installed_def case_prod_beta cmds_slow_log find_binary_cmds
      scan_locations_cmds shutil_which_cmds split: bool.splits)

lemma detect_distro_cmds: "cmds (snd (detect_distro w t)) = cmds t"
  by (simp add: detect_distro_def Let_def cmds_slow_log cmds_append split: sum.splits)

lemma configure_cmds: "cmds (snd (configure a)) = []"
  by (simp add: configure_def cmds_slow_log split: option.splits)

lemma run_distro_cmds: "cmds (snd (run_distro w a t)) = cmds t"
  by (simp add: run_distro_def case_prod_beta cmds_slow_log detect_distro_cmds split: option.splits)

lemma probe_helpers_cmds: "cmds (snd (probe_helpers w hs t)) = cmds t"
  by (induction hs arbitrary: t) (simp_all add: shutil_which_cmds)

lemma probe_helpers_find: "fst (probe_helpers w hs t) = find (which w (cmds t)) hs"
  by (induction hs arbitrary: t) (simp_all add: shutil_which_cmds shutil_which_fst)

lemma resolve_helper_cmds: "cmds (snd (resolve_helper w h t)) = cmds t"
  by (simp add: resolve_helper_def probe_helpers_cmds shutil_which_cmds)

lemma resolve_helper_spec:
  "fst (resolve_helper w h t) = spec_resolve_fallback (which w (cmds t)) h"
  by (simp add: resolve_helper_def spec_resolve_fallback_def shutil_which_fst shutil_which_cmds
      probe_helpers_find)

lemma provision_cmds: "cmds (snd (provision t)) = cmds t"
  by (simp add: provision_def cmds_append)

section \<open>Events outside removal\<close>

lemma shutil_which_beyond:
  "filter beyond_removal (snd (shutil_which w n t)) = filter beyond_removal t"
  by (simp add: shutil_which_def)

lemma subprocess_run_beyond:
  "filter beyond_removal (snd (subprocess_run w a t)) = filter beyond_removal t"
  by (simp add: subprocess_run_def split: proc_outcome.splits)

lemma detect_distro_beyond:
  "filter beyond_removal (snd (detect_distro w t)) = filter beyond_removal t"
  by (simp add: detect_distro_def Let_def slow_log_def split: sum.splits)

lemma configure_beyond: "filter beyond_removal (snd (configure a)) = []"
  by (simp add: configure_def slow_log_def split: option.splits)

lemma run_distro_beyond:
  "filter beyond_removal (snd (run_distro w a t)) = filter beyond_removal t"
  by (simp add: run_distro_def case_prod_beta slow_log_def detect_distro_beyond split: option.splits)

lemma probe_helpers_beyond:
  "filter beyond_removal (snd (probe_helpers w hs t)) = filter beyond_removal t"
  by (induction hs arbitrary: t) (simp_all add: shutil_which_beyond)

lemma resolve_helper_beyond:
  "filter beyond_removal (snd (resolve_helper w h t)) = filter beyond_removal t"
  by (simp add: resolve_helper_def probe_helpers_beyond shutil_which_beyond)

lemma uninstall_via_helper_beyond:
  "filter beyond_removal (snd (uninstall_via_helper w h t)) = filter beyond_removal t"
  by (simp add: uninstall_via_helper_def case_prod_beta slow_log_def resolve_helper_beyond
      subprocess_run_beyond split: option.splits)

lemma uninstall_arch_beyond:
  "filter beyond_removal (snd (uninstall_arch w h t)) = filter beyond_removal t"
  by (simp add: uninstall_arch_def case_prod_beta slow_log_def uninstall_via_helper_beyond
      subprocess_run_beyond split: sum.splits exn.splits)

lemma uninstall_dispatch_beyond:
  "filter beyond_removal (snd (uninstall_dispatch w d h t)) = filter beyond_removal t"
  by (simp add: uninstall_dispatch_def slow_log_def uninstall_arch_beyond subprocess_run_beyond)

lemma uninstall_flatpak_beyond:
  "filter beyond_removal (snd (uninstall_flatpak w p t)) = filter beyond_removal t"
  by (simp add: uninstall_flatpak_def slow_log_def shutil_which_beyond subprocess_run_beyond)

lemma uninstall_vkbasalt_beyond:
  "filter beyond_removal (snd (uninstall_vkbasalt w d f p h t)) = filter beyond_removal t"
  by (simp add: uninstall_vkbasalt_def case_prod_beta uninstall_flatpak_beyond
      uninstall_dispatch_beyond split: sum.splits exn.splits)

lemma main_uninstall:
  "uninstall a \<Longrightarrow>
   main w a =
     uninstall_vkbasalt w (fst (run_distro w a (snd (configure a)))) (flatpak a) (flatpak_pkg a)
       (aur_helper a)
       (snd (run_distro w a (snd (configure a))) @ [Log ''Uninstall mode activated.''])"
  by (simp add: main_def case_prod_beta slow_log_def)

lemma main_uninstall_beyond:
  "uninstall a \<Longrightarrow> filter beyond_removal (snd (main w a)) = []"
  by (simp add: main_uninstall uninstall_vkbasalt_beyond run_distro_beyond configure_beyond)

section \<open>The architecture check\<close>

lemma slow_log_machine: "Machine \<in> set (slow_log m t) \<longleftrightarrow> Machine \<in> set t"
  by (simp add: slow_log_def)

lemma shutil_which_machine: "Machine \<in> set (snd (shutil_which w n t)) \<longleftrightarrow> Machine \<in> set t"
  by (simp add: shutil_which_def)

lemma subprocess_run_machine: "Machine \<in> set (snd (subprocess_run w a t)) \<longleftrightarrow> Machine \<in> set t"
  by (simp add: subprocess_run_def split: proc_outcome.splits)

lemma check_output_decode_machine:
  "Machine \<in> set (snd (check_output_decode w a t)) \<longleftrightarrow> Machine \<in> set t"
  by (simp add: check_output_decode_def split: proc_outcome.splits stdout.splits)

lemma detect_distro_machine: "Machine \<in> set (snd (detect_distro w t)) \<longleftrightarrow> Machine \<in> set t"
  by (simp add: detect_distro_def Let_def slow_log_def split: sum.splits)

lemma configure_machine: "Machine \<notin> set (snd (configure a))"
  by (simp add: configure_def slow_log_def split: option.splits)

lemma run_distro_machine: "Machine \<in> set (snd (run_distro w a t)) \<longleftrightarrow> Machine \<in> set t"
  by (simp add: run_distro_def case_prod_beta slow_log_def detect_distro_machine
      split: option.splits)

lemma find_binary_machine: "Machine \<in> set (snd (find_binary w bs t)) \<longleftrightarrow> Machine \<in> set t"
  by (induction bs arbitrary: t) (simp_all add: shutil_which_machine slow_log_machine)

lemma scan_locations_machine:
  "Machine \<in> set (snd (scan_locations w ls f t)) \<longleftrightarrow> Machine \<in> set t"
  by (induction w ls f t rule: scan_locations.induct) (simp_all add: slow_log_machine)

lemma is_vkbasalt_installed_machine:
  "Machine \<in> set (snd (is_vkbasalt_installed w c t)) \<longleftrightarrow> Machine \<in> set t"
  by (simp add: is_vkbasalt_installed_def case_prod_beta slow_log_machine find_binary_machine
      scan_locations_machine shutil_which_machine split: bool.splits)

lemma compare_versions_machine:
  "Machine \<in> set (snd (compare_versions i l t)) \<longleftrightarrow> Machine \<in> set t"
  by (simp add: compare_versions_def slow_log_machine split: option.splits)

lemma query_available_machine:
  "Machine \<in> set (snd (query_available w h i t)) \<longleftrightarrow> Machine \<in> set t"
  by (simp add: query_available_def case_prod_beta compare_versions_machine
      check_output_decode_machine split: sum.splits)

lemma up_to_date_try_machine:
  "Machine \<in> set (snd (up_to_date_try w h t)) \<longleftrightarrow> Machine \<in> set t"
  by (simp add: up_to_date_try_def case_prod_beta query_available_machine
      check_output_decode_machine split: sum.splits list.splits)

lemma is_up_to_date_machine:
  "Machine \<in> set (snd (is_vkbasalt_up_to_date_with_aur w h t)) \<longleftrightarrow> Machine \<in> set t"
  by (simp add: is_vkbasalt_up_to_date_with_aur_def case_prod_beta up_to_date_try_machine
      split: sum.splits exn.splits)

lemma install_flatpak_machine:
  "Machine \<in> set (snd (install_flatpak w p t)) \<longleftrightarrow> Machine \<in> set t"
  by (simp add: install_flatpak_def slow_log_machine shutil_which_machine subprocess_run_machine)

lemma provision_machine: "Machine \<in> set (snd (provision t)) \<longleftrightarrow> Machine \<in> set t"
  by (simp add: provision_def)

lemma probe_helpers_machine: "Machine \<in> set (snd (probe_helpers w hs t)) \<longleftrightarrow> Machine \<in> set t"
  by (induction hs arbitrary: t) (simp_all add: shutil_which_machine)

lemma resolve_helper_machine: "Machine \<in> set (snd (resolve_helper w h t)) \<longleftrightarrow> Machine \<in> set t"
  by (simp add: resolve_helper_def probe_helpers_machine shutil_which_machine)

lemma uninstall_via_helper_machine:
  "Machine \<in> set (snd (uninstall_via_helper w h t)) \<longleftrightarrow> Machine \<in> set t"
  by (simp add: uninstall_via_helper_def case_prod_beta slow_log_machine resolve_helper_machine
      subprocess_run_machine split: option.splits)

lemma uninstall_arch_machine:
  "Machine \<in> set (snd (uninstall_arch w h t)) \<longleftrightarrow> Machine \<in> set t"
  by (simp add: uninstall_arch_def case_prod_beta slow_log_machine uninstall_via_helper_machine
      subprocess_run_machine split: sum.splits exn.splits)

lemma uninstall_dispatch_machine:
  "Machine \<in> set (snd (uninstall_dispatch w d h t)) \<longleftrightarrow> Machine \<in> set t"
  by (simp add: uninstall_dispatch_def slow_log_machine uninstall_arch_machine
      subprocess_run_machine)

lemma uninstall_flatpak_machine:
  "Machine \<in> set (snd (uninstall_flatpak w p t)) \<longleftrightarrow> Machine \<in> set t"
  by (simp add: uninstall_flatpak_def slow_log_machine shutil_which_machine
      subprocess_run_machine)

lemma uninstall_vkbasalt_machine:
  "Machine \<in> set (snd (uninstall_vkbasalt w d f p h t)) \<longleftrightarrow> Machine \<in> set t"
  by (simp add: uninstall_vkbasalt_def case_prod_beta uninstall_flatpak_machine
      uninstall_dispatch_machine split: sum.splits exn.splits)

lemma install_and_provision_flatpak_machine:
  "flatpak a \<Longrightarrow> Machine \<in> set (snd (install_and_provision w a d t)) \<longleftrightarrow> Machine \<in> set t"
  by (simp add: install_and_provision_def install_vkbasalt_def case_prod_beta slow_log_machine
      install_flatpak_machine provision_machine split: sum.splits)

lemma install_mode_flatpak_machine:
  "flatpak a \<Longrightarrow> Machine \<in> set (snd (install_mode w a c d t)) \<longleftrightarrow> Machine \<in> set t"
  by (simp add: install_mode_def case_prod_beta slow_log_machine provision_machine
      install_and_provision_flatpak_machine is_up_to_date_machine is_vkbasalt_installed_machine
      split: sum.splits bool.splits)

lemma main_machine: "uninstall a \<or> flatpak a \<Longrightarrow> Machine \<notin> set (snd (main w a))"
  by (auto simp add: main_def case_prod_beta slow_log_machine uninstall_vkbasalt_machine
      install_mode_flatpak_machine run_distro_machine configure_machine)

section \<open>Traces only grow\<close>

lemma prefix_cmds: "prefix s t \<Longrightarrow> prefix (cmds s) (cmds t)"
  by (auto simp: prefix_def cmds_append)

lemma slow_log_ext: "prefix s t \<Longrightarrow> prefix s (slow_log m t)"
  by (simp add: slow_log_def prefix_prefix)

lemma shutil_which_ext: "prefix s t \<Longrightarrow> prefix s (snd (shutil_which w n t))"
  by (simp add: shutil_which_def prefix_prefix)

lemma subprocess_run_snd: "snd (subprocess_run w a t) = t @ [Subprocess a]"
  by (simp add: subprocess_run_def split: proc_outcome.splits)

lemma check_output_decode_snd: "snd (check_output_decode w a t) = t @ [Subprocess a]"
  by (simp add: check_output_decode_def split: proc_outcome.splits stdout.splits)

lemma compare_versions_ext: "prefix s t \<Longrightarrow> prefix s (snd (compare_versions i l t))"
  by (simp add: compare_versions_def slow_log_ext split: option.splits)

lemma query_available_ext: "prefix s t \<Longrightarrow> prefix s (snd (query_available w h i t))"
  by (simp add: query_available_def case_prod_beta check_output_decode_snd compare_versions_ext
      prefix_prefix split: sum.splits)

lemma up_to_date_try_ext:
  "prefix s (t @ [Subprocess [h, ''-Q'', ''vkbasalt'']]) \<Longrightarrow> prefix s (snd (up_to_date_try w h t))"
  by (simp add: up_to_date_try_def case_prod_beta check_output_decode_snd query_available_ext
      split: sum.splits list.splits)

lemma is_up_to_date_ext:
  "prefix s (t @ [Subprocess [h, ''-Q'', ''vkbasalt'']]) \<Longrightarrow>
   prefix s (snd (is_vkbasalt_up_to_date_with_aur w h t))"
  by (simp add: is_vkbasalt_up_to_date_with_aur_def case_prod_beta up_to_date_try_ext
      split: sum.splits exn.splits)

lemma probe_helpers_ext: "prefix s t \<Longrightarrow> prefix s (snd (probe_helpers w hs t))"
  by (induction hs arbitrary: t) (simp_all add: shutil_which_ext)

lemma resolve_helper_ext: "prefix s t \<Longrightarrow> prefix s (snd (resolve_helper w h t))"
  by (simp add: resolve_helper_def probe_helpers_ext shutil_which_ext)

lemma run_both_ext: "prefix s t \<Longrightarrow> prefix s (snd (run_both w a b t))"
  by (simp add: run_both_def case_prod_beta subprocess_run_snd prefix_prefix split: sum.splits)

lemma install_via_helper_ext: "prefix s t \<Longrightarrow> prefix s (snd (install_via_helper w h t))"
  by (simp add: install_via_helper_def case_prod_beta subprocess_run_snd prefix_prefix
      slow_log_ext resolve_helper_ext is_up_to_date_ext split: option.splits sum.splits bool.splits)

lemma install_arch_ext: "prefix s t \<Longrightarrow> prefix s (snd (install_arch w h t))"
  by (simp add: install_arch_def case_prod_beta subprocess_run_snd prefix_prefix
      slow_log_ext install_via_helper_ext split: sum.splits exn.splits)

lemma install_dispatch_ext: "prefix s t \<Longrightarrow> prefix s (snd (install_dispatch w d h t))"
  by (simp add: install_dispatch_def subprocess_run_snd prefix_prefix slow_log_ext
      install_arch_ext run_both_ext)

lemma install_vkbasalt_gate_first:
  "prefix (t @ [Machine]) (snd (install_vkbasalt w d False p h t))"
  by (simp add: install_vkbasalt_def case_prod_beta prefix_prefix slow_log_ext
      install_dispatch_ext split: sum.splits exn.splits)

lemma install_vkbasalt_not_64bit:
  "machine w \<noteq> ''x86_64'' \<Longrightarrow>
   install_vkbasalt w d False p h t =
     (Inr (), t @ [Machine, Log (''System architecture detected: '' @ machine w),
                   Log (''Only 64-bit systems are supported. Your system architecture: '' @
                        machine w)])"
  by (simp add: install_vkbasalt_def slow_log_def)

section \<open>The arch fallback\<close>

lemma install_arch_failed:
  "spawn w (cmds t) [''sudo'', ''pacman'', ''-Syu'', ''vkbasalt'', ''--noconfirm''] = Exited rc out \<Longrightarrow>
   rc \<noteq> 0 \<Longrightarrow>
   install_arch w aur t =
     install_via_helper w aur
       (slow_log ''Installing vkbasalt via pacman...'' t @
        [Subprocess [''sudo'', ''pacman'', ''-Syu'', ''vkbasalt'', ''--noconfirm'']])"
  by (simp add: install_arch_def subprocess_run_def cmds_slow_log)

lemma install_via_helper_none:
  "spec_resolve_fallback (which w (cmds t)) aur = None \<Longrightarrow>
   install_via_helper w aur t =
     (Inr (),
      snd (resolve_helper w aur
             (slow_log ''Pacman did not find/update vkbasalt. Checking for an AUR helper...'' t)) @
      [Log ''No AUR helper found. Please install vkbasalt manually.''])"
  using resolve_helper_spec [of w aur
      "slow_log ''Pacman did not find/update vkbasalt. Checking for an AUR helper...'' t"]
  by (simp add: install_via_helper_def case_prod_beta cmds_append slow_log_def
      split: option.splits)

lemma install_via_helper_some:
  "spec_resolve_fallback (which w (cmds t)) aur = Some hu \<Longrightarrow>
   prefix (snd (resolve_helper w aur
             (slow_log ''Pacman did not find/update vkbasalt. Checking for an AUR helper...'' t)) @
           [Subprocess [hu, ''-Q'', ''vkbasalt'']])
     (snd (install_via_helper w aur t))"
  using resolve_helper_spec [of w aur
      "slow_log ''Pacman did not find/update vkbasalt. Checking for an AUR helper...'' t"]
  by (simp add: install_via_helper_def case_prod_beta cmds_slow_log subprocess_run_snd
      slow_log_ext is_up_to_date_ext prefix_prefix split: option.splits sum.splits bool.splits)

lemma uninstall_arch_failed:
  "spawn w (cmds t) [''sudo'', ''pacman'', ''-Rns'', ''--noconfirm'', ''vkbasalt''] = Exited rc out \<Longrightarrow>
   rc \<noteq> 0 \<Longrightarrow>
   uninstall_arch w aur t =
     uninstall_via_helper w aur
       (slow_log ''Uninstalling vkbasalt via pacman...'' t @
        [Subprocess [''sudo'', ''pacman'', ''-Rns'', ''--noconfirm'', ''vkbasalt'']])"
  by (simp add: uninstall_arch_def subprocess_run_def cmds_slow_log)

lemma uninstall_via_helper_none:
  "spec_resolve_fallback (which w (cmds t)) aur = None \<Longrightarrow>
   uninstall_via_helper w aur t =
     (Inr (),
      snd (resolve_helper w aur
             (slow_log ''Pacman removal failed. Checking for an AUR helper...'' t)) @
      [Log ''No AUR helper found. Cannot uninstall vkbasalt automatically for Arch.''])"
  using resolve_helper_spec [of w aur
      "slow_log ''Pacman removal failed. Checking for an AUR helper...'' t"]
  by (simp add: uninstall_via_helper_def case_prod_beta cmds_append slow_log_def
      split: option.splits)

lemma uninstall_via_helper_some:
  "spec_resolve_fallback (which w (cmds t)) aur = Some hu \<Longrightarrow>
   snd (uninstall_via_helper w aur t) =
     snd (resolve_helper w aur
            (slow_log ''Pacman removal failed. Checking for an AUR helper...'' t)) @
     [Subprocess [hu, ''-Rns'', ''--noconfirm'', ''vkbasalt'']]"
  using resolve_helper_spec [of w aur
      "slow_log ''Pacman removal failed. Checking for an AUR helper...'' t"]
  by (simp add: uninstall_via_helper_def case_prod_beta cmds_slow_log subprocess_run_snd
      split: option.splits)

text \<open>The handlers of the two outer \<open>try\<close> blocks add a log line at most.\<close>

lemma install_vkbasalt_arch_64bit:
  "machine w = ''x86_64'' \<Longrightarrow>
   install_vkbasalt w ''arch'' False p aur t =
     (case install_arch w aur (slow_log (''System architecture detected: '' @ machine w) (t @ [Machine])) of
        (Inl (CalledProcessError a rc), t1) \<Rightarrow>
          (Inr (), t1 @ [Log_exn ''An error occurred during installation: '' (CalledProcessError a rc)])
      | r \<Rightarrow> r)"
  by (simp add: install_vkbasalt_def install_dispatch_def)

lemma uninstall_vkbasalt_arch:
  "uninstall_vkbasalt w ''arch'' False p aur t =
     (case uninstall_arch w aur t of
        (Inl (CalledProcessError a rc), t1) \<Rightarrow>
          (Inr (), t1 @ [Log_exn ''An error occurred during uninstallation: '' (CalledProcessError a rc)])
      | r \<Rightarrow> r)"
  by (simp add: uninstall_vkbasalt_def uninstall_dispatch_def)

lemma install_arch_wrapper_ext:
  "machine w = ''x86_64'' \<Longrightarrow>
   prefix s (snd (install_arch w aur
                    (slow_log (''System architecture detected: '' @ machine w) (t @ [Machine])))) \<Longrightarrow>
   prefix s (snd (install_vkbasalt w ''arch'' False p aur t))"
  by (simp add: install_vkbasalt_arch_64bit case_prod_beta prefix_prefix
      split: sum.splits exn.splits)

lemma install_arch_no_helper:
  assumes m: "machine w = ''x86_64''"
    and f: "spawn w (cmds t) [''sudo'', ''pacman'', ''-Syu'', ''vkbasalt'', ''--noconfirm''] = Exited rc out"
    and rc: "rc \<noteq> 0"
    and n: "spec_resolve_fallback
              (which w (cmds t @ [[''sudo'', ''pacman'', ''-Syu'', ''vkbasalt'', ''--noconfirm'']])) aur = None"
  shows "fst (install_vkbasalt w ''arch'' False p aur t) = Inr () \<and>
         last (snd (install_vkbasalt w ''arch'' False p aur t)) =
           Log ''No AUR helper found. Please install vkbasalt manually.'' \<and>
         cmds (snd (install_vkbasalt w ''arch'' False p aur t)) =
           cmds t @ [[''sudo'', ''pacman'', ''-Syu'', ''vkbasalt'', ''--noconfirm'']]"
proof -
  let ?T0 = "slow_log (''System architecture detected: '' @ machine w) (t @ [Machine])"
  let ?T1 = "slow_log ''Installing vkbasalt via pacman...'' ?T0 @
             [Subprocess [''sudo'', ''pacman'', ''-Syu'', ''vkbasalt'', ''--noconfirm'']]"
  have c0: "cmds ?T0 = cmds t" by (simp add: cmds_slow_log cmds_append)
  have c1: "cmds ?T1 = cmds t @ [[''sudo'', ''pacman'', ''-Syu'', ''vkbasalt'', ''--noconfirm'']]"
    by (simp add: cmds_slow_log cmds_append)
  from f c0 have "spawn w (cmds ?T0) [''sudo'', ''pacman'', ''-Syu'', ''vkbasalt'', ''--noconfirm''] = Exited rc out"
    by simp
  from install_arch_failed [OF this rc]
  have a: "install_arch w aur ?T0 = install_via_helper w aur ?T1" .
  from n c1 have "spec_resolve_fallback (which w (cmds ?T1)) aur = None" by simp
  from install_via_helper_none [OF this]
  have b: "install_via_helper w aur ?T1 =
    (Inr (), snd (resolve_helper w aur
             (slow_log ''Pacman did not find/update vkbasalt. Checking for an AUR helper...'' ?T1)) @
      [Log ''No AUR helper found. Please install vkbasalt manually.''])" .
  have "install_vkbasalt w ''arch'' False p aur t =
    (Inr (), snd (resolve_helper w aur
             (slow_log ''Pacman did not find/update vkbasalt. Checking for an AUR helper...'' ?T1)) @
      [Log ''No AUR helper found. Please install vkbasalt manually.''])"
    by (simp only: install_vkbasalt_arch_64bit [OF m] a b) simp
  then show ?thesis
    using c1 by (simp add: cmds_append resolve_helper_cmds cmds_slow_log)
qed

lemma install_arch_with_helper:
  assumes m: "machine w = ''x86_64''"
    and f: "spawn w (cmds t) [''sudo'', ''pacman'', ''-Syu'', ''vkbasalt'', ''--noconfirm''] = Exited rc out"
    and rc: "rc \<noteq> 0"
    and n: "spec_resolve_fallback
              (which w (cmds t @ [[''sudo'', ''pacman'', ''-Syu'', ''vkbasalt'', ''--noconfirm'']])) aur = Some hu"
  shows "prefix (cmds t @ [[''sudo'', ''pacman'', ''-Syu'', ''vkbasalt'', ''--noconfirm''],
                           [hu, ''-Q'', ''vkbasalt'']])
           (cmds (snd (install_vkbasalt w ''arch'' False p aur t)))"
proof -
  let ?T0 = "slow_log (''System architecture detected: '' @ machine w) (t @ [Machine])"
  let ?T1 = "slow_log ''Installing vkbasalt via pacman...'' ?T0 @
             [Subprocess [''sudo'', ''pacman'', ''-Syu'', ''vkbasalt'', ''--noconfirm'']]"
  let ?R = "snd (resolve_helper w aur
             (slow_log ''Pacman did not find/update vkbasalt. Checking for an AUR helper...'' ?T1))"
  have c0: "cmds ?T0 = cmds t" by (simp add: cmds_slow_log cmds_append)
  have c1: "cmds ?T1 = cmds t @ [[''sudo'', ''pacman'', ''-Syu'', ''vkbasalt'', ''--noconfirm'']]"
    by (simp add: cmds_slow_log cmds_append)
  from f c0 have "spawn w (cmds ?T0) [''sudo'', ''pacman'', ''-Syu'', ''vkbasalt'', ''--noconfirm''] = Exited rc out"
    by simp
  from install_arch_failed [OF this rc]
  have a: "install_arch w aur ?T0 = install_via_helper w aur ?T1" .
  from n c1 have "spec_resolve_fallback (which w (cmds ?T1)) aur = Some hu" by simp
  from install_via_helper_some [OF this]
  have "prefix (?R @ [Subprocess [hu, ''-Q'', ''vkbasalt'']]) (snd (install_via_helper w aur ?T1))" .
  with a have "prefix (?R @ [Subprocess [hu, ''-Q'', ''vkbasalt'']]) (snd (install_arch w aur ?T0))"
    by simp
  from install_arch_wrapper_ext [OF m this]
  have "prefix (?R @ [Subprocess [hu, ''-Q'', ''vkbasalt'']])
          (snd (install_vkbasalt w ''arch'' False p aur t))" .
  from prefix_cmds [OF this] c1 show ?thesis
    by (simp add: cmds_append resolve_helper_cmds cmds_slow_log)
qed

lemma uninstall_arch_no_helper:
  assumes f: "spawn w (cmds t) [''sudo'', ''pacman'', ''-Rns'', ''--noconfirm'', ''vkbasalt''] = Exited rc out"
    and rc: "rc \<noteq> 0"
    and n: "spec_resolve_fallback
              (which w (cmds t @ [[''sudo'', ''pacman'', ''-Rns'', ''--noconfirm'', ''vkbasalt'']])) aur = None"
  shows "fst (uninstall_vkbasalt w ''arch'' False p aur t) = Inr () \<and>
         last (snd (uninstall_vkbasalt w ''arch'' False p aur t)) =
           Log ''No AUR helper found. Cannot uninstall vkbasalt automatically for Arch.'' \<and>
         cmds (snd (uninstall_vkbasalt w ''arch'' False p aur t)) =
           cmds t @ [[''sudo'', ''pacman'', ''-Rns'', ''--noconfirm'', ''vkbasalt'']]"
proof -
  let ?T1 = "slow_log ''Uninstalling vkbasalt via pacman...'' t @
             [Subprocess [''sudo'', ''pacman'', ''-Rns'', ''--noconfirm'', ''vkbasalt'']]"
  have c1: "cmds ?T1 = cmds t @ [[''sudo'', ''pacman'', ''-Rns'', ''--noconfirm'', ''vkbasalt'']]"
    by (simp add: cmds_slow_log cmds_append)
  from uninstall_arch_failed [OF f rc]
  have a: "uninstall_arch w aur t = uninstall_via_helper w aur ?T1" .
  from n c1 have "spec_resolve_fallback (which w (cmds ?T1)) aur = None" by simp
  from uninstall_via_helper_none [OF this]
  have b: "uninstall_via_helper w aur ?T1 =
    (Inr (), snd (resolve_helper w aur
             (slow_log ''Pacman removal failed. Checking for an AUR helper...'' ?T1)) @
      [Log ''No AUR helper found. Cannot uninstall vkbasalt automatically for Arch.''])" .
  have "uninstall_vkbasalt w ''arch'' False p aur t =
    (Inr (), snd (resolve_helper w aur
             (slow_log ''Pacman removal failed. Checking for an AUR helper...'' ?T1)) @
      [Log ''No AUR helper found. Cannot uninstall vkbasalt automatically for Arch.''])"
    by (simp only: uninstall_vkbasalt_arch a b) simp
  then show ?thesis
    using c1 by (simp add: cmds_append resolve_helper_cmds cmds_slow_log)
qed

lemma uninstall_arch_with_helper:
  assumes f: "spawn w (cmds t) [''sudo'', ''pacman'', ''-Rns'', ''--noconfirm'', ''vkbasalt''] = Exited rc out"
    and rc: "rc \<noteq> 0"
    and n: "spec_resolve_fallback
              (which w (cmds t @ [[''sudo'', ''pacman'', ''-Rns'', ''--noconfirm'', ''vkbasalt'']])) aur = Some hu"
  shows "cmds (snd (uninstall_vkbasalt w ''arch'' False p aur t)) =
           cmds t @ [[''sudo'', ''pacman'', ''-Rns'', ''--noconfirm'', ''vkbasalt''],
                     [hu, ''-Rns'', ''--noconfirm'', ''vkbasalt'']]"
proof -
  let ?T1 = "slow_log ''Uninstalling vkbasalt via pacman...'' t @
             [Subprocess [''sudo'', ''pacman'', ''-Rns'', ''--noconfirm'', ''vkbasalt'']]"
  have c1: "cmds ?T1 = cmds t @ [[''sudo'', ''pacman'', ''-Rns'', ''--noconfirm'', ''vkbasalt'']]"
    by (simp add: cmds_slow_log cmds_append)
  from uninstall_arch_failed [OF f rc]
  have a: "uninstall_arch w aur t = uninstall_via_helper w aur ?T1" .
  from n c1 have "spec_resolve_fallback (which w (cmds ?T1)) aur = Some hu" by simp
  from uninstall_via_helper_some [OF this]
  have b: "cmds (snd (uninstall_via_helper w aur ?T1)) =
             cmds t @ [[''sudo'', ''pacman'', ''-Rns'', ''--noconfirm'', ''vkbasalt''],
                     [hu, ''-Rns'', ''--noconfirm'', ''vkbasalt'']]"
    using c1 by (simp add: cmds_append resolve_helper_cmds cmds_slow_log)
  have "cmds (snd (uninstall_vkbasalt w ''arch'' False p aur t)) =
          cmds (snd (uninstall_arch w aur t))"
    by (simp add: uninstall_vkbasalt_arch case_prod_beta cmds_append split: sum.splits exn.splits)
  with a b show ?thesis by simp
qed

lemma uninstall_via_helper_ext: "prefix s t \<Longrightarrow> prefix s (snd (uninstall_via_helper w h t))"
  by (simp add: uninstall_via_helper_def case_prod_beta subprocess_run_snd prefix_prefix
      slow_log_ext resolve_helper_ext split: option.splits)

lemma uninstall_arch_ext:
  "prefix s (slow_log ''Uninstalling vkbasalt via pacman...'' t @
             [Subprocess [''sudo'', ''pacman'', ''-Rns'', ''--noconfirm'', ''vkbasalt'']]) \<Longrightarrow>
   prefix s (snd (uninstall_arch w h t))"
  by (simp add: uninstall_arch_def case_prod_beta subprocess_run_snd uninstall_via_helper_ext
      split: sum.splits exn.splits)

lemma uninstall_vkbasalt_cmds:
  "cmds (snd (uninstall_vkbasalt w d False p h t)) = cmds (snd (uninstall_dispatch w d h t))"
  by (simp add: uninstall_vkbasalt_def case_prod_beta cmds_append split: sum.splits exn.splits)

lemma uninstall_dispatch_first:
  assumes "native_remove d = Some c"
  shows "prefix (cmds t @ [c]) (cmds (snd (uninstall_dispatch w d h t)))"
proof (cases "d = ''arch''")
  case True
  have "prefix (slow_log ''Uninstalling vkbasalt via pacman...'' t @
             [Subprocess [''sudo'', ''pacman'', ''-Rns'', ''--noconfirm'', ''vkbasalt'']])
          (snd (uninstall_arch w h t))"
    by (rule uninstall_arch_ext) simp
  from prefix_cmds [OF this] True assms show ?thesis
    by (simp add: uninstall_dispatch_def native_remove_def cmds_append cmds_slow_log)
next
  case False
  with assms show ?thesis
    by (auto simp add: uninstall_dispatch_def native_remove_def subprocess_run_cmds cmds_slow_log
        split: if_splits)
qed

lemma uninstall_fedora_cmds:
  "cmds (snd (uninstall_vkbasalt w ''fedora'' False p h t)) =
     cmds t @ [[''sudo'', ''dnf'', ''remove'', ''-y'', ''vkbasalt'']]"
  by (simp add: uninstall_vkbasalt_cmds uninstall_dispatch_def subprocess_run_cmds cmds_slow_log)

lemma main_uninstall_start:
  "cmds (snd (run_distro w a (snd (configure a))) @ [Log ''Uninstall mode activated.'']) = []"
  by (simp add: cmds_append run_distro_cmds configure_cmds)

lemma run_distro_forced:
  "force_distro a = Some s \<Longrightarrow> s \<noteq> [] \<Longrightarrow> fst (run_distro w a t) = lower s"
  by (simp add: run_distro_def case_prod_beta)

lemma install_dispatch_unsupported:
  "d \<notin> set [''debian'', ''fedora'', ''arch'', ''void'', ''solus''] \<Longrightarrow>
   install_dispatch w d h t =
     (Inr (), t @ [Log ''Unsupported Linux distribution. Cannot install vkbasalt automatically.''])"
  by (simp add: install_dispatch_def slow_log_def)

lemma uninstall_dispatch_unsupported:
  "d \<notin> set [''debian'', ''fedora'', ''arch'', ''void'', ''solus''] \<Longrightarrow>
   uninstall_dispatch w d h t =
     (Inr (), t @ [Log ''Unsupported Linux distribution. Cannot uninstall vkbasalt automatically.''])"
  by (simp add: uninstall_dispatch_def slow_log_def)

lemma install_vkbasalt_unsupported_cmds:
  "d \<notin> set [''debian'', ''fedora'', ''arch'', ''void'', ''solus''] \<Longrightarrow>
   cmds (snd (install_vkbasalt w d False p h t)) = cmds t \<and>
   fst (install_vkbasalt w d False p h t) = Inr ()"
  by (simp add: install_vkbasalt_def install_dispatch_unsupported slow_log_def cmds_append)

lemma main_unsupported_cmds:
  assumes "d \<notin> set [''debian'', ''fedora'', ''arch'', ''void'', ''solus'']"
    and "\<not> flatpak a" and "fst (run_distro w a (snd (configure a))) = d"
  shows "cmds (snd (main w a)) = []"
proof (cases "uninstall a")
  case True
  with assms show ?thesis
    by (simp add: main_uninstall uninstall_vkbasalt_cmds uninstall_dispatch_unsupported
        cmds_append run_distro_cmds configure_cmds)
next
  case False
  from assms(1) have na: "d \<noteq> ''arch''" by auto
  have ip: "\<And>t. cmds (snd (install_and_provision w a d t)) = cmds t"
    using assms(1,2) install_vkbasalt_unsupported_cmds [OF assms(1), of w "flatpak_pkg a" "aur_helper a"]
    by (simp add: install_and_provision_def case_prod_beta provision_def cmds_append cmds_slow_log
        split: sum.splits)
  have "cmds (snd (install_mode w a (fst (configure a)) d (snd (run_distro w a (snd (configure a)))))) = []"
    using na
    by (simp add: install_mode_def case_prod_beta ip provision_def cmds_append cmds_slow_log
        is_vkbasalt_installed_cmds run_distro_cmds configure_cmds split: bool.splits)
  with False assms(3) show ?thesis
    by (simp add: main_def case_prod_beta)
qed

lemma uninstall_flatpak_cmds:
  "cmds (snd (uninstall_flatpak w p t)) =
     cmds t @ (if which w (cmds t) ''flatpak''
               then [[''flatpak'', ''uninstall'', ''--user'', ''-y'', p]] else [])"
  by (simp add: uninstall_flatpak_def shutil_which_def subprocess_run_cmds cmds_slow_log
      cmds_append)

lemma native_remove_none:
  "native_remove d = None \<Longrightarrow> d \<notin> set [''debian'', ''fedora'', ''arch'', ''void'', ''solus'']"
  by (auto simp add: native_remove_def split: if_splits)

lemma uninstall_dispatch_single:
  "native_remove d = Some c \<Longrightarrow> d \<noteq> ''arch'' \<Longrightarrow>
   cmds (snd (uninstall_dispatch w d h t)) = cmds t @ [c]"
  by (auto simp add: uninstall_dispatch_def native_remove_def subprocess_run_cmds cmds_slow_log
      split: if_splits)

section \<open>Distribution classification (C2)\<close>

text \<open>
  C2, as stated, fails: the claim says that every mapping whose \<open>id_like\<close> contains
  "arch" is classified as arch. The tests run in the order debian, fedora, arch, so an
  \<open>id_like\<close> of "arch debian" is classified as debian, whatever \<open>id\<close> says.
\<close>

theorem id_like_arch_with_debian_counterexample:
  "map_of (parse_os_release mixed_like_lines) ''id_like'' = Some ''arch debian'' \<and>
   sublist ''arch'' ''arch debian'' \<and>
   fst (detect_distro (static_host mixed_like_lines ''x86_64'' nothing nothing
                         (missing_program ''paru'')) []) = ''debian''"
  by code_simp

text \<open>
  C2, amended: when the parsed mapping has an \<open>id_like\<close> key, its value is tested by
  substring membership in the order debian, fedora, arch, void, solus, and the first name
  it contains is the result, whatever \<open>id\<close> is; \<open>id\<close> decides only when \<open>id_like\<close>
  contains none of the five names. In particular a mapping whose \<open>id_like\<close> contains
  "arch" and neither "debian" nor "fedora" is classified as arch regardless of \<open>id\<close>.
\<close>

theorem id_like_first_match_wins:
  assumes "os_release w = Inr lines"
    and "map_of (parse_os_release lines) ''id_like'' = Some v"
  shows "(\<forall>d. find (\<lambda>n. sublist n v) [''debian'', ''fedora'', ''arch'', ''void'', ''solus''] = Some d
            \<longrightarrow> fst (detect_distro w t) = d) \<and>
         (find (\<lambda>n. sublist n v) [''debian'', ''fedora'', ''arch'', ''void'', ''solus''] = None
            \<longrightarrow> fst (detect_distro w t) = classify_id (parse_os_release lines) ''unknown'') \<and>
         (sublist ''arch'' v \<and> \<not> sublist ''debian'' v \<and> \<not> sublist ''fedora'' v
            \<longrightarrow> fst (detect_distro w t) = ''arch'')"
proof (intro conjI allI impI)
  fix d
  assume "find (\<lambda>n. sublist n v) [''debian'', ''fedora'', ''arch'', ''void'', ''solus''] = Some d"
  with assms show "fst (detect_distro w t) = d"
    by (simp only: detect_distro_classify classify_first_match)
next
  assume "find (\<lambda>n. sublist n v) [''debian'', ''fedora'', ''arch'', ''void'', ''solus''] = None"
  with assms show "fst (detect_distro w t) = classify_id (parse_os_release lines) ''unknown''"
    by (simp only: detect_distro_classify classify_no_match)
next
  assume "sublist ''arch'' v \<and> \<not> sublist ''debian'' v \<and> \<not> sublist ''fedora'' v"
  then have "find (\<lambda>n. sublist n v) [''debian'', ''fedora'', ''arch'', ''void'', ''solus''] =
               Some ''arch''"
    by simp
  with assms show "fst (detect_distro w t) = ''arch''"
    by (simp only: detect_distro_classify classify_first_match)
qed

theorem id_like_first_match_wins_witness:
  "os_release (static_host arch_like_lines ''x86_64'' nothing nothing (missing_program ''paru'')) =
     Inr arch_like_lines \<and>
   map_of (parse_os_release arch_like_lines) ''id_like'' = Some ''arch'' \<and>
   map_of (parse_os_release arch_like_lines) ''id'' = Some ''ubuntu'' \<and>
   sublist ''arch'' ''arch'' \<and> \<not> sublist ''debian'' ''arch'' \<and> \<not> sublist ''fedora'' ''arch'' \<and>
   fst (detect_distro (static_host arch_like_lines ''x86_64'' nothing nothing
                         (missing_program ''paru'')) []) = ''arch''"
proof -
  have h1: "os_release (static_host arch_like_lines ''x86_64'' nothing nothing
                          (missing_program ''paru'')) = Inr arch_like_lines"
    by (simp add: static_host_def)
  have h2: "map_of (parse_os_release arch_like_lines) ''id_like'' = Some ''arch''"
    by code_simp
  have h3: "map_of (parse_os_release arch_like_lines) ''id'' = Some ''ubuntu''"
    by code_simp
  have h4: "sublist ''arch'' ''arch'' \<and> \<not> sublist ''debian'' ''arch'' \<and>
            \<not> sublist ''fedora'' ''arch''"
    by (simp add: sublist_Cons_right)
  from id_like_first_match_wins [OF h1 h2, of "[]"] h4
  have "fst (detect_distro (static_host arch_like_lines ''x86_64'' nothing nothing
                              (missing_program ''paru'')) []) = ''arch''"
    by blast
  with h1 h2 h3 h4 show ?thesis by blast
qed

section \<open>The up-to-date check (C4, C7, C9)\<close>

text \<open>
  C4: the claim says that the check returns false for every kind of failed invocation,
  the helper executable not existing included. The handler of
  \<open>is_vkbasalt_up_to_date_with_aur\<close> names \<open>CalledProcessError\<close> only. On a host
  where vkbasalt is on the PATH, the distribution is arch-like and no program \<open>paru\<close>
  exists, the check called with \<open>paru\<close> raises, and so does the run started with
  \<open>--aur-helper paru\<close>: it ends in the exception, before provisioning.
\<close>

theorem up_to_date_missing_helper_raises:
  "fst (is_vkbasalt_up_to_date_with_aur
          (static_host arch_like_lines ''x86_64'' (only [''vkbasalt'']) nothing
             (missing_program ''paru'')) ''paru'' []) = Inl OSError \<and>
   fst (main (static_host arch_like_lines ''x86_64'' (only [''vkbasalt'']) nothing
                (missing_program ''paru''))
             (default_args\<lparr>aur_helper := ''paru''\<rparr>)) = Inl OSError \<and>
   Setup_config \<notin> set (snd (main (static_host arch_like_lines ''x86_64'' (only [''vkbasalt''])
                                     nothing (missing_program ''paru''))
                                  (default_args\<lparr>aur_helper := ''paru''\<rparr>)))"
  by code_simp

text \<open>
  C7, as stated, fails: the claim takes the available version from the first line whose
  key before the first colon equals "version". The code takes the first line that
  \<^emph>\<open>starts with\<close> "version" when lowered. With a line \<open>Versioned: none\<close> ahead of
  \<open>Version: 1.2.3\<close> and 1.2.3 installed, the specification's wording gives true and the
  code returns false.
\<close>

theorem version_prefix_line_counterexample:
  "spec_is_up_to_date installed_123 available_prefixed \<and>
   fst (is_vkbasalt_up_to_date_with_aur
          (static_host arch_like_lines ''x86_64'' (only [''paru'']) nothing
             (helper_replies ''paru'' installed_123 available_prefixed)) ''paru'' []) = Inr False"
  by code_simp

text \<open>
  C7, amended: when both queries succeed, the installed version is the second
  whitespace-delimited token of the query-installed output, the available version is the
  trimmed text after the first colon of the first line of the query-available output that
  starts with "version" when lowered (that line containing a colon), and the check returns
  true if and only if the two strings are equal.
\<close>

theorem up_to_date_compares_parsed_versions:
  assumes "spawn w (cmds t) [h, ''-Q'', ''vkbasalt''] = Exited 0 (Text out1)"
    and "split_ws out1 = pkg # installed # rest"
    and "spawn w (cmds t @ [[h, ''-Q'', ''vkbasalt'']]) [h, ''-Si'', ''vkbasalt''] =
           Exited 0 (Text out2)"
    and "find (\<lambda>l. prefix ''version'' (lower l)) (splitlines out2) = Some line"
    and "CHR '':'' \<in> set line"
  shows "fst (is_vkbasalt_up_to_date_with_aur w h t) =
           Inr (installed = strip (after_first CHR '':'' line))"
  using assms(4,5)
  by (simp add: is_vkbasalt_up_to_date_with_aur_def up_to_date_parsed [OF assms(1,2,3)]
      find_latest_find compare_versions_def)

text \<open>The two examples of the claim: 1.2.3 installed, against an available 1.2.3 and
  an available 1.2.4.\<close>

theorem up_to_date_compares_parsed_versions_witness:
  "split_ws installed_123 = [''vkbasalt'', ''1.2.3''] \<and>
   find (\<lambda>l. prefix ''version'' (lower l)) (splitlines available_123) =
     Some ''Version         : 1.2.3'' \<and>
   find (\<lambda>l. prefix ''version'' (lower l)) (splitlines available_124) =
     Some ''Version         : 1.2.4'' \<and>
   fst (is_vkbasalt_up_to_date_with_aur
          (static_host arch_like_lines ''x86_64'' (only [''paru'']) nothing
             (helper_replies ''paru'' installed_123 available_123)) ''paru'' []) = Inr True \<and>
   fst (is_vkbasalt_up_to_date_with_aur
          (static_host arch_like_lines ''x86_64'' (only [''paru'']) nothing
             (helper_replies ''paru'' installed_123 available_124)) ''paru'' []) = Inr False"
proof -
  have tok: "split_ws installed_123 = ''vkbasalt'' # ''1.2.3'' # []"
    by code_simp
  have l3: "find (\<lambda>l. prefix ''version'' (lower l)) (splitlines available_123) =
              Some ''Version         : 1.2.3''"
    by code_simp
  have l4: "find (\<lambda>l. prefix ''version'' (lower l)) (splitlines available_124) =
              Some ''Version         : 1.2.4''"
    by code_simp
  have colon3: "CHR '':'' \<in> set ''Version         : 1.2.3''"
    and colon4: "CHR '':'' \<in> set ''Version         : 1.2.4''"
    by simp_all
  have v3: "strip (after_first CHR '':'' ''Version         : 1.2.3'') = ''1.2.3''"
    and v4: "strip (after_first CHR '':'' ''Version         : 1.2.4'') = ''1.2.4''"
    by code_simp+
  have q3: "spawn (static_host arch_like_lines ''x86_64'' (only [''paru'']) nothing
                     (helper_replies ''paru'' installed_123 available_123))
              (cmds []) [''paru'', ''-Q'', ''vkbasalt''] = Exited 0 (Text installed_123)"
    and s3: "spawn (static_host arch_like_lines ''x86_64'' (only [''paru'']) nothing
                     (helper_replies ''paru'' installed_123 available_123))
              (cmds [] @ [[''paru'', ''-Q'', ''vkbasalt'']]) [''paru'', ''-Si'', ''vkbasalt''] =
                Exited 0 (Text available_123)"
    and q4: "spawn (static_host arch_like_lines ''x86_64'' (only [''paru'']) nothing
                     (helper_replies ''paru'' installed_123 available_124))
              (cmds []) [''paru'', ''-Q'', ''vkbasalt''] = Exited 0 (Text installed_123)"
    and s4: "spawn (static_host arch_like_lines ''x86_64'' (only [''paru'']) nothing
                     (helper_replies ''paru'' installed_123 available_124))
              (cmds [] @ [[''paru'', ''-Q'', ''vkbasalt'']]) [''paru'', ''-Si'', ''vkbasalt''] =
                Exited 0 (Text available_124)"
    by (simp_all add: static_host_def helper_replies_def)
  from up_to_date_compares_parsed_versions [OF q3 tok s3 l3 colon3] v3
  have r3: "fst (is_vkbasalt_up_to_date_with_aur
                   (static_host arch_like_lines ''x86_64'' (only [''paru'']) nothing
                      (helper_replies ''paru'' installed_123 available_123)) ''paru'' []) = Inr True"
    by simp
  from up_to_date_compares_parsed_versions [OF q4 tok s4 l4 colon4] v4
  have r4: "fst (is_vkbasalt_up_to_date_with_aur
                   (static_host arch_like_lines ''x86_64'' (only [''paru'']) nothing
                      (helper_replies ''paru'' installed_123 available_124)) ''paru'' []) = Inr False"
    by simp
  from tok l3 l4 r3 r4 show ?thesis by simp
qed

text \<open>
  C9: when both queries succeed (the second is only made once the first answer has given
  its second token) and no line of the query-available output starts with "version" when
  lowered, \<open>latest\<close> is never bound and the comparison raises \<open>NameError\<close>, which the
  handler does not catch: the check returns no boolean.
\<close>

theorem up_to_date_unbound_latest:
  assumes "spawn w (cmds t) [h, ''-Q'', ''vkbasalt''] = Exited 0 (Text out1)"
    and "split_ws out1 = pkg # installed # rest"
    and "spawn w (cmds t @ [[h, ''-Q'', ''vkbasalt'']]) [h, ''-Si'', ''vkbasalt''] =
           Exited 0 (Text out2)"
    and "\<forall>line \<in> set (splitlines out2). \<not> prefix ''version'' (lower line)"
  shows "fst (is_vkbasalt_up_to_date_with_aur w h t) = Inl NameError"
proof -
  from assms(4) have "find (\<lambda>l. prefix ''version'' (lower l)) (splitlines out2) = None"
    by (simp add: find_None_iff)
  then show ?thesis
    by (simp add: is_vkbasalt_up_to_date_with_aur_def up_to_date_parsed [OF assms(1,2,3)]
        find_latest_find compare_versions_def)
qed

theorem up_to_date_unbound_latest_witness:
  "split_ws installed_123 = [''vkbasalt'', ''1.2.3''] \<and>
   splitlines available_no_version =
     [''Repository      : aur'', ''Name            : vkbasalt''] \<and>
   fst (is_vkbasalt_up_to_date_with_aur
          (static_host arch_like_lines ''x86_64'' (only [''paru'']) nothing
             (helper_replies ''paru'' installed_123 available_no_version)) ''paru'' []) =
     Inl NameError"
proof -
  have tok: "split_ws installed_123 = ''vkbasalt'' # ''1.2.3'' # []"
    by code_simp
  have ls: "splitlines available_no_version =
              [''Repository      : aur'', ''Name            : vkbasalt'']"
    by code_simp
  have none: "\<forall>line \<in> set (splitlines available_no_version).
                \<not> prefix ''version'' (lower line)"
    unfolding ls by (simp add: lower_def lower_char_def)
  have q: "spawn (static_host arch_like_lines ''x86_64'' (only [''paru'']) nothing
                    (helper_replies ''paru'' installed_123 available_no_version))
             (cmds []) [''paru'', ''-Q'', ''vkbasalt''] = Exited 0 (Text installed_123)"
    and s: "spawn (static_host arch_like_lines ''x86_64'' (only [''paru'']) nothing
                    (helper_replies ''paru'' installed_123 available_no_version))
             (cmds [] @ [[''paru'', ''-Q'', ''vkbasalt'']]) [''paru'', ''-Si'', ''vkbasalt''] =
               Exited 0 (Text available_no_version)"
    by (simp_all add: static_host_def helper_replies_def)
  from up_to_date_unbound_latest [OF q tok s none] tok ls show ?thesis by simp
qed

section \<open>The install decision (C1)\<close>

text \<open>
  C1: in a run without \<open>--uninstall\<close> in which the presence check returns true: if the
  distribution is arch and an AUR helper was given, the up-to-date check is consulted; on
  true the run logs that installation is skipped and goes on to provisioning, on false it
  continues with the install procedure and provisions after it. In every other case the
  run skips installation and provisions, and no command at all has been run.
\<close>

theorem install_decision_when_present:
  assumes "\<not> uninstall a"
    and "configure a = (cpath, t0)"
    and "run_distro w a t0 = (distro, t1)"
    and "is_vkbasalt_installed w cpath t1 = (True, t2)"
  shows "(distro = ''arch'' \<and> aur_helper a \<noteq> [] \<longrightarrow>
            (\<forall>t3. is_vkbasalt_up_to_date_with_aur w (aur_helper a) t2 = (Inr True, t3) \<longrightarrow>
                  main w a =
                    (Inr (), t3 @ [Log ''vkBasalt is installed and up-to-date. Skipping installation.'',
                                   Setup_config, Create_directories, Prompt_assets])) \<and>
            (\<forall>t3. is_vkbasalt_up_to_date_with_aur w (aur_helper a) t2 = (Inr False, t3) \<longrightarrow>
                  main w a =
                    (case install_vkbasalt w distro (flatpak a) (flatpak_pkg a) (aur_helper a)
                            (t3 @ [Log ''vkBasalt is not installed or is outdated. Proceeding with installation...'']) of
                       (Inl e, t4) \<Rightarrow> (Inl e, t4)
                     | (Inr u, t4) \<Rightarrow> (Inr (), t4 @ [Setup_config, Create_directories, Prompt_assets])))) \<and>
         (\<not> (distro = ''arch'' \<and> aur_helper a \<noteq> []) \<longrightarrow>
            main w a =
              (Inr (), t2 @ [Log ''vkBasalt is already installed. Skipping installation.'',
                             Setup_config, Create_directories, Prompt_assets]) \<and>
            cmds (snd (main w a)) = [])"
proof -
  have c2: "cmds t2 = []"
    using assms(2,3,4) is_vkbasalt_installed_cmds [of w cpath t1] run_distro_cmds [of w a t0]
      configure_cmds [of a]
    by simp
  show ?thesis
    using assms c2
    by (auto simp add: main_def install_mode_def provision_def install_and_provision_def
        slow_log_def cmds_append split: prod.splits sum.splits)
qed

theorem install_decision_when_present_witness:
  "fst (main (paru_host available_123) (default_args\<lparr>aur_helper := ''paru''\<rparr>)) = Inr () \<and>
   Setup_config \<in> set (snd (main (paru_host available_123) (default_args\<lparr>aur_helper := ''paru''\<rparr>))) \<and>
   fst (main (paru_host available_124) (default_args\<lparr>aur_helper := ''paru''\<rparr>)) = Inr () \<and>
   fst (main (fedora_host ''x86_64'' (only [''vkbasalt'']) 1) default_args) = Inr () \<and>
   cmds (snd (main (fedora_host ''x86_64'' (only [''vkbasalt'']) 1) default_args)) = []"
proof -
  let ?A = "default_args\<lparr>aur_helper := ''paru''\<rparr>"
  have nu: "\<not> uninstall ?A" "\<not> uninstall default_args" by (simp_all add: default_args_def)
  have hp: "aur_helper ?A \<noteq> []" "aur_helper ?A = ''paru''" by (simp_all add: default_args_def)
  have he: "aur_helper default_args = []" by (simp add: default_args_def)
  \<comment> \<open>an arch-like host, vkbasalt present, the helper reports the installed version\<close>
  let ?W = "paru_host available_123"
  let ?t1 = "snd (run_distro ?W ?A (snd (configure ?A)))"
  let ?t2 = "snd (is_vkbasalt_installed ?W (fst (configure ?A)) ?t1)"
  let ?t3 = "snd (is_vkbasalt_up_to_date_with_aur ?W ''paru'' ?t2)"
  have d: "fst (run_distro ?W ?A (snd (configure ?A))) = ''arch''" by code_simp
  have i: "fst (is_vkbasalt_installed ?W (fst (configure ?A)) ?t1) = True" by code_simp
  have u: "fst (is_vkbasalt_up_to_date_with_aur ?W ''paru'' ?t2) = Inr True" by code_simp
  have c1: "configure ?A = (fst (configure ?A), snd (configure ?A))" by simp
  have r1: "run_distro ?W ?A (snd (configure ?A)) = (''arch'', ?t1)"
    using d by (simp add: prod_eq_iff)
  have i1: "is_vkbasalt_installed ?W (fst (configure ?A)) ?t1 = (True, ?t2)"
    using i by (simp add: prod_eq_iff)
  have u1: "is_vkbasalt_up_to_date_with_aur ?W (aur_helper ?A) ?t2 = (Inr True, ?t3)"
    using u hp by (simp add: prod_eq_iff)
  from install_decision_when_present [OF nu(1) c1 r1 i1] hp u1
  have m1: "main ?W ?A =
              (Inr (), ?t3 @ [Log ''vkBasalt is installed and up-to-date. Skipping installation.'',
                              Setup_config, Create_directories, Prompt_assets])"
    by blast
  \<comment> \<open>the same host, the helper reports a newer version\<close>
  let ?V = "paru_host available_124"
  let ?s1 = "snd (run_distro ?V ?A (snd (configure ?A)))"
  let ?s2 = "snd (is_vkbasalt_installed ?V (fst (configure ?A)) ?s1)"
  let ?s3 = "snd (is_vkbasalt_up_to_date_with_aur ?V ''paru'' ?s2)"
  have d': "fst (run_distro ?V ?A (snd (configure ?A))) = ''arch''" by code_simp
  have i': "fst (is_vkbasalt_installed ?V (fst (configure ?A)) ?s1) = True" by code_simp
  have u': "fst (is_vkbasalt_up_to_date_with_aur ?V ''paru'' ?s2) = Inr False" by code_simp
  have r2: "run_distro ?V ?A (snd (configure ?A)) = (''arch'', ?s1)"
    using d' by (simp add: prod_eq_iff)
  have i2: "is_vkbasalt_installed ?V (fst (configure ?A)) ?s1 = (True, ?s2)"
    using i' by (simp add: prod_eq_iff)
  have u2: "is_vkbasalt_up_to_date_with_aur ?V (aur_helper ?A) ?s2 = (Inr False, ?s3)"
    using u' hp by (simp add: prod_eq_iff)
  from install_decision_when_present [OF nu(1) c1 r2 i2] hp u2
  have m2: "main ?V ?A =
              (case install_vkbasalt ?V ''arch'' (flatpak ?A) (flatpak_pkg ?A) (aur_helper ?A)
                      (?s3 @ [Log ''vkBasalt is not installed or is outdated. Proceeding with installation...'']) of
                 (Inl e, t4) \<Rightarrow> (Inl e, t4)
               | (Inr u, t4) \<Rightarrow> (Inr (), t4 @ [Setup_config, Create_directories, Prompt_assets]))"
    by blast
  have e2: "fst (case install_vkbasalt ?V ''arch'' (flatpak ?A) (flatpak_pkg ?A) (aur_helper ?A)
                      (?s3 @ [Log ''vkBasalt is not installed or is outdated. Proceeding with installation...'']) of
                 (Inl e, t4) \<Rightarrow> (Inl e, t4)
               | (Inr u, t4) \<Rightarrow> (Inr (), t4 @ [Setup_config, Create_directories, Prompt_assets])) = Inr ()"
    by code_simp
  \<comment> \<open>a Fedora host, vkbasalt present, no helper given\<close>
  let ?F = "fedora_host ''x86_64'' (only [''vkbasalt'']) 1"
  let ?f1 = "snd (run_distro ?F default_args (snd (configure default_args)))"
  let ?f2 = "snd (is_vkbasalt_installed ?F (fst (configure default_args)) ?f1)"
  have i3: "fst (is_vkbasalt_installed ?F (fst (configure default_args)) ?f1) = True" by code_simp
  have c3: "configure default_args = (fst (configure default_args), snd (configure default_args))"
    by simp
  have r3: "run_distro ?F default_args (snd (configure default_args)) =
              (fst (run_distro ?F default_args (snd (configure default_args))), ?f1)"
    by simp
  have i3': "is_vkbasalt_installed ?F (fst (configure default_args)) ?f1 = (True, ?f2)"
    using i3 by (simp add: prod_eq_iff)
  from install_decision_when_present [OF nu(2) c3 r3 i3'] he
  have m3: "main ?F default_args =
              (Inr (), ?f2 @ [Log ''vkBasalt is already installed. Skipping installation.'',
                             Setup_config, Create_directories, Prompt_assets]) \<and>
            cmds (snd (main ?F default_args)) = []"
    by blast
  have g1: "fst (main ?W ?A) = Inr ()" "Setup_config \<in> set (snd (main ?W ?A))"
    by (simp_all add: m1)
  have g2: "fst (main ?V ?A) = Inr ()"
    unfolding m2 by (rule e2)
  have g3: "fst (main ?F default_args) = Inr ()"
    by (simp add: m3 [THEN conjunct1])
  note g4 = m3 [THEN conjunct2]
  from g1 g2 g3 g4 show ?thesis by blast
qed

section \<open>The fallback helper on arch (C3)\<close>

text \<open>
  C3: the helper resolved after a failed pacman action is the one the specification's
  order gives: the operator-supplied name if it is given and on the PATH, otherwise the
  first of yay and paru that is on the PATH, otherwise none; resolving runs no command.
  When pacman exits with a non-zero status during installation (on a 64-bit host) or
  removal: with no helper the function returns normally, its last log line says that no
  AUR helper was found, and pacman's is the only command run; with a helper, the next
  command is the helper's (its version query when installing, its removal when removing).
\<close>

theorem fallback_helper_resolution:
  "fst (resolve_helper w aur t) = spec_resolve_fallback (which w (cmds t)) aur \<and>
   cmds (snd (resolve_helper w aur t)) = cmds t \<and>
   (\<forall>rc out.
      machine w = ''x86_64'' \<and>
      spawn w (cmds t) [''sudo'', ''pacman'', ''-Syu'', ''vkbasalt'', ''--noconfirm''] = Exited rc out \<and>
      rc \<noteq> 0 \<longrightarrow>
      (case spec_resolve_fallback
              (which w (cmds t @ [[''sudo'', ''pacman'', ''-Syu'', ''vkbasalt'', ''--noconfirm'']]))
              aur of
         None \<Rightarrow>
           fst (install_vkbasalt w ''arch'' False p aur t) = Inr () \<and>
           last (snd (install_vkbasalt w ''arch'' False p aur t)) =
             Log ''No AUR helper found. Please install vkbasalt manually.'' \<and>
           cmds (snd (install_vkbasalt w ''arch'' False p aur t)) =
             cmds t @ [[''sudo'', ''pacman'', ''-Syu'', ''vkbasalt'', ''--noconfirm'']]
       | Some hu \<Rightarrow>
           prefix (cmds t @ [[''sudo'', ''pacman'', ''-Syu'', ''vkbasalt'', ''--noconfirm''],
                             [hu, ''-Q'', ''vkbasalt'']])
             (cmds (snd (install_vkbasalt w ''arch'' False p aur t))))) \<and>
   (\<forall>rc out.
      spawn w (cmds t) [''sudo'', ''pacman'', ''-Rns'', ''--noconfirm'', ''vkbasalt''] = Exited rc out \<and>
      rc \<noteq> 0 \<longrightarrow>
      (case spec_resolve_fallback
              (which w (cmds t @ [[''sudo'', ''pacman'', ''-Rns'', ''--noconfirm'', ''vkbasalt'']]))
              aur of
         None \<Rightarrow>
           fst (uninstall_vkbasalt w ''arch'' False p aur t) = Inr () \<and>
           last (snd (uninstall_vkbasalt w ''arch'' False p aur t)) =
             Log ''No AUR helper found. Cannot uninstall vkbasalt automatically for Arch.'' \<and>
           cmds (snd (uninstall_vkbasalt w ''arch'' False p aur t)) =
             cmds t @ [[''sudo'', ''pacman'', ''-Rns'', ''--noconfirm'', ''vkbasalt'']]
       | Some hu \<Rightarrow>
           cmds (snd (uninstall_vkbasalt w ''arch'' False p aur t)) =
             cmds t @ [[''sudo'', ''pacman'', ''-Rns'', ''--noconfirm'', ''vkbasalt''],
                       [hu, ''-Rns'', ''--noconfirm'', ''vkbasalt'']]))"
proof (intro conjI allI impI)
  show "fst (resolve_helper w aur t) = spec_resolve_fallback (which w (cmds t)) aur"
    by (rule resolve_helper_spec)
  show "cmds (snd (resolve_helper w aur t)) = cmds t"
    by (rule resolve_helper_cmds)
next
  fix rc out
  assume "machine w = ''x86_64'' \<and>
      spawn w (cmds t) [''sudo'', ''pacman'', ''-Syu'', ''vkbasalt'', ''--noconfirm''] = Exited rc out \<and>
      rc \<noteq> 0"
  then show "case spec_resolve_fallback
              (which w (cmds t @ [[''sudo'', ''pacman'', ''-Syu'', ''vkbasalt'', ''--noconfirm'']]))
              aur of
         None \<Rightarrow>
           fst (install_vkbasalt w ''arch'' False p aur t) = Inr () \<and>
           last (snd (install_vkbasalt w ''arch'' False p aur t)) =
             Log ''No AUR helper found. Please install vkbasalt manually.'' \<and>
           cmds (snd (install_vkbasalt w ''arch'' False p aur t)) =
             cmds t @ [[''sudo'', ''pacman'', ''-Syu'', ''vkbasalt'', ''--noconfirm'']]
       | Some hu \<Rightarrow>
           prefix (cmds t @ [[''sudo'', ''pacman'', ''-Syu'', ''vkbasalt'', ''--noconfirm''],
                             [hu, ''-Q'', ''vkbasalt'']])
             (cmds (snd (install_vkbasalt w ''arch'' False p aur t)))"
    using install_arch_no_helper [of w t rc out aur p] install_arch_with_helper [of w t rc out aur _ p]
    by (simp split: option.splits)
next
  fix rc out
  assume "spawn w (cmds t) [''sudo'', ''pacman'', ''-Rns'', ''--noconfirm'', ''vkbasalt''] = Exited rc out \<and>
      rc \<noteq> 0"
  then show "case spec_resolve_fallback
              (which w (cmds t @ [[''sudo'', ''pacman'', ''-Rns'', ''--noconfirm'', ''vkbasalt'']]))
              aur of
         None \<Rightarrow>
           fst (uninstall_vkbasalt w ''arch'' False p aur t) = Inr () \<and>
           last (snd (uninstall_vkbasalt w ''arch'' False p aur t)) =
             Log ''No AUR helper found. Cannot uninstall vkbasalt automatically for Arch.'' \<and>
           cmds (snd (uninstall_vkbasalt w ''arch'' False p aur t)) =
             cmds t @ [[''sudo'', ''pacman'', ''-Rns'', ''--noconfirm'', ''vkbasalt'']]
       | Some hu \<Rightarrow>
           cmds (snd (uninstall_vkbasalt w ''arch'' False p aur t)) =
             cmds t @ [[''sudo'', ''pacman'', ''-Rns'', ''--noconfirm'', ''vkbasalt''],
                       [hu, ''-Rns'', ''--noconfirm'', ''vkbasalt'']]"
    using uninstall_arch_no_helper [of w t rc out aur p]
      uninstall_arch_with_helper [of w t rc out aur _ p]
    by (simp split: option.splits)
qed

theorem fallback_helper_resolution_witness:
  "spec_resolve_fallback (only [''yay'', ''paru'']) [] = Some ''yay'' \<and>
   fst (resolve_helper (arch_host (only [''yay'', ''paru''])) [] []) = Some ''yay'' \<and>
   fst (resolve_helper (arch_host (only [''yay'', ''paru''])) ''paru'' []) = Some ''paru'' \<and>
   cmds (snd (uninstall_vkbasalt (arch_host (only [''yay'', ''paru''])) ''arch'' False
                ''org.vkbasalt.vkbasalt'' [] [])) =
     [[''sudo'', ''pacman'', ''-Rns'', ''--noconfirm'', ''vkbasalt''],
      [''yay'', ''-Rns'', ''--noconfirm'', ''vkbasalt'']] \<and>
   prefix [[''sudo'', ''pacman'', ''-Syu'', ''vkbasalt'', ''--noconfirm''], [''yay'', ''-Q'', ''vkbasalt'']]
     (cmds (snd (install_vkbasalt (arch_host (only [''yay'', ''paru''])) ''arch'' False
                   ''org.vkbasalt.vkbasalt'' [] []))) \<and>
   fst (install_vkbasalt (arch_host nothing) ''arch'' False ''org.vkbasalt.vkbasalt'' [] []) = Inr () \<and>
   last (snd (install_vkbasalt (arch_host nothing) ''arch'' False ''org.vkbasalt.vkbasalt'' [] [])) =
     Log ''No AUR helper found. Please install vkbasalt manually.'' \<and>
   cmds (snd (install_vkbasalt (arch_host nothing) ''arch'' False ''org.vkbasalt.vkbasalt'' [] [])) =
     [[''sudo'', ''pacman'', ''-Syu'', ''vkbasalt'', ''--noconfirm'']]"
proof -
  have s1: "spec_resolve_fallback (only [''yay'', ''paru'']) [] = Some ''yay''"
    and s2: "spec_resolve_fallback (only [''yay'', ''paru'']) ''paru'' = Some ''paru''"
    and s3: "spec_resolve_fallback nothing [] = None"
    by (simp_all add: spec_resolve_fallback_def only_def nothing_def)
  have w: "\<And>p h. which (arch_host p) h = p" "\<And>p. machine (arch_host p) = ''x86_64''"
    "\<And>p h a. spawn (arch_host p) h a = Exited 1 (Text [])"
    by (simp_all add: arch_host_def static_host_def always_exits_def)
  from fallback_helper_resolution [of "arch_host (only [''yay'', ''paru''])" "[]" "[]" "''org.vkbasalt.vkbasalt''"]
  have a: "fst (resolve_helper (arch_host (only [''yay'', ''paru''])) [] []) = Some ''yay''"
    "cmds (snd (uninstall_vkbasalt (arch_host (only [''yay'', ''paru''])) ''arch'' False
                ''org.vkbasalt.vkbasalt'' [] [])) =
     [[''sudo'', ''pacman'', ''-Rns'', ''--noconfirm'', ''vkbasalt''],
      [''yay'', ''-Rns'', ''--noconfirm'', ''vkbasalt'']]"
    "prefix [[''sudo'', ''pacman'', ''-Syu'', ''vkbasalt'', ''--noconfirm''], [''yay'', ''-Q'', ''vkbasalt'']]
     (cmds (snd (install_vkbasalt (arch_host (only [''yay'', ''paru''])) ''arch'' False
                   ''org.vkbasalt.vkbasalt'' [] [])))"
    by (simp_all add: w s1)
  from fallback_helper_resolution [of "arch_host (only [''yay'', ''paru''])" "''paru''" "[]" "''org.vkbasalt.vkbasalt''"]
  have b: "fst (resolve_helper (arch_host (only [''yay'', ''paru''])) ''paru'' []) = Some ''paru''"
    by (simp add: w s2)
  from fallback_helper_resolution [of "arch_host nothing" "[]" "[]" "''org.vkbasalt.vkbasalt''"]
  have c: "fst (install_vkbasalt (arch_host nothing) ''arch'' False ''org.vkbasalt.vkbasalt'' [] []) = Inr ()"
   "last (snd (install_vkbasalt (arch_host nothing) ''arch'' False ''org.vkbasalt.vkbasalt'' [] [])) =
     Log ''No AUR helper found. Please install vkbasalt manually.''"
   "cmds (snd (install_vkbasalt (arch_host nothing) ''arch'' False ''org.vkbasalt.vkbasalt'' [] [])) =
     [[''sudo'', ''pacman'', ''-Syu'', ''vkbasalt'', ''--noconfirm'']]"
    by (simp_all add: w s3)
  from s1 a b c show ?thesis by simp
qed

section \<open>Errors that escape (C5)\<close>

text \<open>
  C5: the claim says that no error of the core aborts the run and that provisioning is
  always reached, on the Flatpak path too. \<open>install_vkbasalt\<close> runs the Flatpak command
  with \<open>check=True\<close> outside every \<open>try\<close>: on a Fedora host with flatpak on the
  PATH and vkbasalt absent, a run with \<open>--flatpak\<close> whose \<open>flatpak install\<close> exits
  with status 1 ends in \<open>CalledProcessError\<close>, and provisioning does not start.
\<close>

theorem flatpak_failure_escapes:
  "fst (main (static_host fedora_lines ''x86_64'' (only [''flatpak'']) nothing (always_exits 1))
             (default_args\<lparr>flatpak := True\<rparr>)) =
     Inl (CalledProcessError
            [''flatpak'', ''install'', ''--user'', ''--noninteractive'', ''flathub'',
             ''org.vkbasalt.vkbasalt''] 1) \<and>
   Setup_config \<notin> set (snd (main (static_host fedora_lines ''x86_64'' (only [''flatpak'']) nothing
                                     (always_exits 1))
                                  (default_args\<lparr>flatpak := True\<rparr>)))"
  by code_simp

section \<open>Uninstall mode (C6)\<close>

text \<open>
  C6, as stated, fails: the claim says that every run with \<open>--uninstall\<close> removes
  through the package manager of the family, for fedora with the single command
  \<open>dnf remove -y vkbasalt\<close>. \<open>uninstall_vkbasalt\<close> tests \<open>use_flatpak\<close> before it
  looks at the distribution: on a Fedora host with flatpak on the PATH, a run with
  \<open>--uninstall --flatpak\<close> runs \<open>flatpak uninstall --user -y org.vkbasalt.vkbasalt\<close>
  and nothing else. Without \<open>--flatpak\<close> the command on that host starts with \<open>sudo\<close>.
\<close>

theorem uninstall_flatpak_on_fedora_counterexample:
  "uninstall (default_args\<lparr>uninstall := True, flatpak := True\<rparr>) \<and>
   fst (run_distro (fedora_host ''x86_64'' (only [''flatpak'']) 0)
          (default_args\<lparr>uninstall := True, flatpak := True\<rparr>)
          (snd (configure (default_args\<lparr>uninstall := True, flatpak := True\<rparr>)))) = ''fedora'' \<and>
   cmds (snd (main (fedora_host ''x86_64'' (only [''flatpak'']) 0)
                (default_args\<lparr>uninstall := True, flatpak := True\<rparr>))) =
     [[''flatpak'', ''uninstall'', ''--user'', ''-y'', ''org.vkbasalt.vkbasalt'']] \<and>
   cmds (snd (main (fedora_host ''x86_64'' nothing 0) (default_args\<lparr>uninstall := True\<rparr>))) =
     [[''sudo'', ''dnf'', ''remove'', ''-y'', ''vkbasalt'']]"
  by code_simp

text \<open>
  C6, amended: in every run with \<open>--uninstall\<close> the presence check is not consulted (its
  first log line and its file tests are absent from the trace) and no provisioning call
  is made, whatever the removal does. The removal is dispatched unconditionally. With
  \<open>--flatpak\<close> it goes through flatpak, whatever the family: the only command is
  \<open>flatpak uninstall --user -y\<close> with the package id when flatpak is on the PATH, and
  no command is run otherwise. Without \<open>--flatpak\<close> it goes through the package manager
  of the family when the family is one of debian, fedora, arch, void, solus: the remove
  command of the family is the first command of the run, and the only one unless the
  family is arch; for fedora the run's commands are exactly
  \<open>sudo dnf remove -y vkbasalt\<close>. For any other family no command is run.
\<close>

theorem uninstall_mode_run:
  assumes "uninstall a"
  shows "Log ''Checking if vkbasalt is installed (searching in PATH)...'' \<notin> set (snd (main w a)) \<and>
         (\<forall>p. Path_exists p \<notin> set (snd (main w a))) \<and>
         Setup_config \<notin> set (snd (main w a)) \<and>
         Create_directories \<notin> set (snd (main w a)) \<and>
         Prompt_assets \<notin> set (snd (main w a)) \<and>
         (flatpak a \<longrightarrow>
            cmds (snd (main w a)) =
              (if which w [] ''flatpak''
               then [[''flatpak'', ''uninstall'', ''--user'', ''-y'', flatpak_pkg a]] else [])) \<and>
         (\<forall>c. \<not> flatpak a \<and> native_remove (fst (run_distro w a (snd (configure a)))) = Some c \<longrightarrow>
              prefix [c] (cmds (snd (main w a))) \<and>
              (fst (run_distro w a (snd (configure a))) \<noteq> ''arch'' \<longrightarrow>
                 cmds (snd (main w a)) = [c])) \<and>
         (\<not> flatpak a \<and> native_remove (fst (run_distro w a (snd (configure a)))) = None \<longrightarrow>
            cmds (snd (main w a)) = []) \<and>
         (\<not> flatpak a \<and> fst (run_distro w a (snd (configure a))) = ''fedora'' \<longrightarrow>
            cmds (snd (main w a)) = [[''sudo'', ''dnf'', ''remove'', ''-y'', ''vkbasalt'']])"
proof -
  let ?d = "fst (run_distro w a (snd (configure a)))"
  let ?t = "snd (run_distro w a (snd (configure a))) @ [Log ''Uninstall mode activated.'']"
  from main_uninstall_beyond [OF assms, of w]
  have none: "\<And>e. e \<in> set (snd (main w a)) \<Longrightarrow> \<not> beyond_removal e"
    by (simp add: filter_empty_conv)
  have probes: "Log ''Checking if vkbasalt is installed (searching in PATH)...'' \<notin> set (snd (main w a))"
    "\<forall>p. Path_exists p \<notin> set (snd (main w a))"
    "Setup_config \<notin> set (snd (main w a))"
    "Create_directories \<notin> set (snd (main w a))"
    "Prompt_assets \<notin> set (snd (main w a))"
    using none by fastforce+
  have fp: "flatpak a \<longrightarrow>
            cmds (snd (main w a)) =
              (if which w [] ''flatpak''
               then [[''flatpak'', ''uninstall'', ''--user'', ''-y'', flatpak_pkg a]] else [])"
    by (simp add: main_uninstall [OF assms] uninstall_vkbasalt_def uninstall_flatpak_cmds
        main_uninstall_start)
  have first: "\<forall>c. \<not> flatpak a \<and> native_remove ?d = Some c \<longrightarrow>
              prefix [c] (cmds (snd (main w a))) \<and>
              (?d \<noteq> ''arch'' \<longrightarrow> cmds (snd (main w a)) = [c])"
  proof (intro allI impI conjI)
    fix c
    assume h: "\<not> flatpak a \<and> native_remove ?d = Some c"
    from uninstall_dispatch_first [of ?d c ?t w "aur_helper a"] h
    show "prefix [c] (cmds (snd (main w a)))"
      by (simp add: main_uninstall [OF assms] uninstall_vkbasalt_cmds main_uninstall_start)
  next
    fix c
    assume h: "\<not> flatpak a \<and> native_remove ?d = Some c" and na: "?d \<noteq> ''arch''"
    from uninstall_dispatch_single [of ?d c w "aur_helper a" ?t] h na
    show "cmds (snd (main w a)) = [c]"
      by (simp add: main_uninstall [OF assms] uninstall_vkbasalt_cmds main_uninstall_start)
  qed
  have unk: "\<not> flatpak a \<and> native_remove ?d = None \<longrightarrow> cmds (snd (main w a)) = []"
  proof
    assume h: "\<not> flatpak a \<and> native_remove ?d = None"
    then have "?d \<notin> set [''debian'', ''fedora'', ''arch'', ''void'', ''solus'']"
      by (blast dest: native_remove_none)
    from uninstall_dispatch_unsupported [OF this, of w "aur_helper a" ?t] h
    show "cmds (snd (main w a)) = []"
      by (simp add: main_uninstall [OF assms] uninstall_vkbasalt_cmds cmds_append
          run_distro_cmds configure_cmds)
  qed
  have fed: "\<not> flatpak a \<and> ?d = ''fedora'' \<longrightarrow>
            cmds (snd (main w a)) = [[''sudo'', ''dnf'', ''remove'', ''-y'', ''vkbasalt'']]"
    by (simp add: main_uninstall [OF assms] uninstall_fedora_cmds main_uninstall_start)
  from probes fp first unk fed show ?thesis by blast
qed

text \<open>Fedora hosts on which \<open>dnf remove\<close> succeeds and fails, Flatpak runs with and
  without flatpak on the PATH, and a run whose forced family is unknown.\<close>

theorem uninstall_mode_run_witness:
  "uninstall (default_args\<lparr>uninstall := True\<rparr>) \<and>
   native_remove ''fedora'' = Some [''sudo'', ''dnf'', ''remove'', ''-y'', ''vkbasalt''] \<and>
   native_remove ''gentoo'' = None \<and>
   fst (main (fedora_host ''x86_64'' nothing 0) (default_args\<lparr>uninstall := True\<rparr>)) = Inr () \<and>
   fst (main (fedora_host ''x86_64'' nothing 1) (default_args\<lparr>uninstall := True\<rparr>)) = Inr () \<and>
   cmds (snd (main (fedora_host ''x86_64'' nothing 0) (default_args\<lparr>uninstall := True\<rparr>))) =
     [[''sudo'', ''dnf'', ''remove'', ''-y'', ''vkbasalt'']] \<and>
   cmds (snd (main (fedora_host ''x86_64'' nothing 1) (default_args\<lparr>uninstall := True\<rparr>))) =
     [[''sudo'', ''dnf'', ''remove'', ''-y'', ''vkbasalt'']] \<and>
   Setup_config \<notin> set (snd (main (fedora_host ''x86_64'' nothing 0) (default_args\<lparr>uninstall := True\<rparr>))) \<and>
   Setup_config \<notin> set (snd (main (fedora_host ''x86_64'' nothing 1) (default_args\<lparr>uninstall := True\<rparr>))) \<and>
   Log ''Checking if vkbasalt is installed (searching in PATH)...''
     \<notin> set (snd (main (fedora_host ''x86_64'' nothing 1) (default_args\<lparr>uninstall := True\<rparr>))) \<and>
   cmds (snd (main (fedora_host ''x86_64'' (only [''flatpak'']) 0)
                (default_args\<lparr>uninstall := True, flatpak := True\<rparr>))) =
     [[''flatpak'', ''uninstall'', ''--user'', ''-y'', ''org.vkbasalt.vkbasalt'']] \<and>
   cmds (snd (main (fedora_host ''x86_64'' nothing 0)
                (default_args\<lparr>uninstall := True, flatpak := True\<rparr>))) = [] \<and>
   cmds (snd (main (fedora_host ''x86_64'' nothing 0)
                (default_args\<lparr>uninstall := True, force_distro := Some ''Gentoo''\<rparr>))) = []"
proof -
  let ?A = "default_args\<lparr>uninstall := True\<rparr>"
  let ?B = "default_args\<lparr>uninstall := True, flatpak := True\<rparr>"
  let ?G = "default_args\<lparr>uninstall := True, force_distro := Some ''Gentoo''\<rparr>"
  have u: "uninstall ?A" "uninstall ?B" "uninstall ?G"
    and nf: "\<not> flatpak ?A" "\<not> flatpak ?G" and f: "flatpak ?B"
    and pk: "flatpak_pkg ?B = ''org.vkbasalt.vkbasalt''"
    by (simp_all add: default_args_def)
  have n: "native_remove ''fedora'' = Some [''sudo'', ''dnf'', ''remove'', ''-y'', ''vkbasalt'']"
    and ng: "native_remove ''gentoo'' = None"
    by (simp_all add: native_remove_def)
  have d0: "fst (run_distro (fedora_host ''x86_64'' nothing 0) ?A (snd (configure ?A))) = ''fedora''"
    and d1: "fst (run_distro (fedora_host ''x86_64'' nothing 1) ?A (snd (configure ?A))) = ''fedora''"
    and dg: "fst (run_distro (fedora_host ''x86_64'' nothing 0) ?G (snd (configure ?G))) = ''gentoo''"
    by code_simp+
  have r0: "fst (main (fedora_host ''x86_64'' nothing 0) ?A) = Inr ()"
    and r1: "fst (main (fedora_host ''x86_64'' nothing 1) ?A) = Inr ()"
    by code_simp+
  have wf: "which (fedora_host ''x86_64'' (only [''flatpak'']) 0) [] ''flatpak''"
    and wn: "\<not> which (fedora_host ''x86_64'' nothing 0) [] ''flatpak''"
    by (simp_all add: fedora_host_def static_host_def only_def nothing_def)
  from uninstall_mode_run [OF u(1), of "fedora_host ''x86_64'' nothing 0"] nf(1) d0
  have a: "cmds (snd (main (fedora_host ''x86_64'' nothing 0) ?A)) =
             [[''sudo'', ''dnf'', ''remove'', ''-y'', ''vkbasalt'']]"
    "Setup_config \<notin> set (snd (main (fedora_host ''x86_64'' nothing 0) ?A))"
    by blast+
  from uninstall_mode_run [OF u(1), of "fedora_host ''x86_64'' nothing 1"] nf(1) d1
  have b: "cmds (snd (main (fedora_host ''x86_64'' nothing 1) ?A)) =
             [[''sudo'', ''dnf'', ''remove'', ''-y'', ''vkbasalt'']]"
    "Setup_config \<notin> set (snd (main (fedora_host ''x86_64'' nothing 1) ?A))"
    "Log ''Checking if vkbasalt is installed (searching in PATH)...''
       \<notin> set (snd (main (fedora_host ''x86_64'' nothing 1) ?A))"
    by blast+
  from uninstall_mode_run [OF u(2), of "fedora_host ''x86_64'' (only [''flatpak'']) 0"] f wf pk
  have c: "cmds (snd (main (fedora_host ''x86_64'' (only [''flatpak'']) 0) ?B)) =
             [[''flatpak'', ''uninstall'', ''--user'', ''-y'', ''org.vkbasalt.vkbasalt'']]"
    by simp
  from uninstall_mode_run [OF u(2), of "fedora_host ''x86_64'' nothing 0"] f wn
  have d: "cmds (snd (main (fedora_host ''x86_64'' nothing 0) ?B)) = []"
    by simp
  from uninstall_mode_run [OF u(3), of "fedora_host ''x86_64'' nothing 0"] nf(2) dg ng
  have e: "cmds (snd (main (fedora_host ''x86_64'' nothing 0) ?G)) = []"
    by simp
  from u(1) n ng r0 r1 a b c d e show ?thesis by blast
qed

section \<open>The architecture gate (C8)\<close>

text \<open>
  C8: on the native path \<open>install_vkbasalt\<close> asks for the machine architecture before
  anything else, so before every command it runs; on a machine that is not x86_64 it
  returns after two log lines, having run no command. \<open>uninstall_vkbasalt\<close> and the
  Flatpak branch of \<open>install_vkbasalt\<close> never ask for the architecture, and a whole
  run with \<open>--uninstall\<close> or \<open>--flatpak\<close> never does.
\<close>

theorem architecture_gate:
  "prefix (t @ [Machine]) (snd (install_vkbasalt w d False p h t)) \<and>
   (machine w \<noteq> ''x86_64'' \<longrightarrow>
      install_vkbasalt w d False p h t =
        (Inr (), t @ [Machine, Log (''System architecture detected: '' @ machine w),
                      Log (''Only 64-bit systems are supported. Your system architecture: '' @
                           machine w)]) \<and>
      cmds (snd (install_vkbasalt w d False p h t)) = cmds t) \<and>
   (Machine \<notin> set t \<longrightarrow>
      Machine \<notin> set (snd (uninstall_vkbasalt w d f p h t)) \<and>
      Machine \<notin> set (snd (install_vkbasalt w d True p h t))) \<and>
   (uninstall a \<or> flatpak a \<longrightarrow> Machine \<notin> set (snd (main w a)))"
proof (intro conjI impI)
  show "prefix (t @ [Machine]) (snd (install_vkbasalt w d False p h t))"
    by (rule install_vkbasalt_gate_first)
next
  assume "machine w \<noteq> ''x86_64''"
  then show "install_vkbasalt w d False p h t =
        (Inr (), t @ [Machine, Log (''System architecture detected: '' @ machine w),
                      Log (''Only 64-bit systems are supported. Your system architecture: '' @
                           machine w)])"
    by (rule install_vkbasalt_not_64bit)
next
  assume "machine w \<noteq> ''x86_64''"
  then show "cmds (snd (install_vkbasalt w d False p h t)) = cmds t"
    by (simp add: install_vkbasalt_not_64bit cmds_append)
next
  assume "Machine \<notin> set t"
  then show "Machine \<notin> set (snd (uninstall_vkbasalt w d f p h t))"
    by (simp add: uninstall_vkbasalt_machine)
next
  assume "Machine \<notin> set t"
  then show "Machine \<notin> set (snd (install_vkbasalt w d True p h t))"
    by (simp add: install_vkbasalt_def install_flatpak_machine)
next
  assume "uninstall a \<or> flatpak a"
  then show "Machine \<notin> set (snd (main w a))"
    by (rule main_machine)
qed

theorem architecture_gate_witness:
  "machine (fedora_host ''aarch64'' nothing 0) \<noteq> ''x86_64'' \<and>
   install_vkbasalt (fedora_host ''aarch64'' nothing 0) ''fedora'' False ''org.vkbasalt.vkbasalt'' [] [] =
     (Inr (), [Machine, Log ''System architecture detected: aarch64'',
               Log ''Only 64-bit systems are supported. Your system architecture: aarch64'']) \<and>
   cmds (snd (install_vkbasalt (fedora_host ''aarch64'' nothing 0) ''fedora'' False
                ''org.vkbasalt.vkbasalt'' [] [])) = [] \<and>
   Machine \<notin> set (snd (uninstall_vkbasalt (fedora_host ''aarch64'' nothing 0) ''fedora'' False
                          ''org.vkbasalt.vkbasalt'' [] [])) \<and>
   Machine \<notin> set (snd (install_vkbasalt (fedora_host ''aarch64'' nothing 0) ''fedora'' True
                          ''org.vkbasalt.vkbasalt'' [] [])) \<and>
   Machine \<notin> set (snd (main (fedora_host ''aarch64'' nothing 0) (default_args\<lparr>uninstall := True\<rparr>))) \<and>
   Machine \<notin> set (snd (main (fedora_host ''aarch64'' (only [''flatpak'']) 0)
                          (default_args\<lparr>flatpak := True\<rparr>)))"
proof -
  have m: "machine (fedora_host ''aarch64'' nothing 0) = ''aarch64''"
    by (simp add: fedora_host_def static_host_def)
  have ne: "machine (fedora_host ''aarch64'' nothing 0) \<noteq> ''x86_64''"
    by (simp add: m)
  have u: "uninstall (default_args\<lparr>uninstall := True\<rparr>) \<or> flatpak (default_args\<lparr>uninstall := True\<rparr>)"
    and f: "uninstall (default_args\<lparr>flatpak := True\<rparr>) \<or> flatpak (default_args\<lparr>flatpak := True\<rparr>)"
    by (simp_all add: default_args_def)
  have e: "Machine \<notin> set []" by simp
  from architecture_gate [of "[]" "fedora_host ''aarch64'' nothing 0" "''fedora''" "''org.vkbasalt.vkbasalt''"
      "[]" False "default_args\<lparr>uninstall := True\<rparr>"] ne e u m
  have a: "install_vkbasalt (fedora_host ''aarch64'' nothing 0) ''fedora'' False ''org.vkbasalt.vkbasalt'' [] [] =
     (Inr (), [Machine, Log ''System architecture detected: aarch64'',
               Log ''Only 64-bit systems are supported. Your system architecture: aarch64''])"
    "cmds (snd (install_vkbasalt (fedora_host ''aarch64'' nothing 0) ''fedora'' False
                ''org.vkbasalt.vkbasalt'' [] [])) = []"
    "Machine \<notin> set (snd (uninstall_vkbasalt (fedora_host ''aarch64'' nothing 0) ''fedora'' False
                          ''org.vkbasalt.vkbasalt'' [] []))"
    "Machine \<notin> set (snd (install_vkbasalt (fedora_host ''aarch64'' nothing 0) ''fedora'' True
                          ''org.vkbasalt.vkbasalt'' [] []))"
    "Machine \<notin> set (snd (main (fedora_host ''aarch64'' nothing 0) (default_args\<lparr>uninstall := True\<rparr>)))"
    by simp_all
  from architecture_gate [of "[]" "fedora_host ''aarch64'' (only [''flatpak'']) 0" "''fedora''" "''org.vkbasalt.vkbasalt''"
      "[]" False "default_args\<lparr>flatpak := True\<rparr>"] f
  have b: "Machine \<notin> set (snd (main (fedora_host ''aarch64'' (only [''flatpak'']) 0)
                          (default_args\<lparr>flatpak := True\<rparr>)))"
    by blast
  from ne a b show ?thesis by blast
qed

section \<open>A forced distribution (C10)\<close>

text \<open>
  C10, as stated, fails: the claim speaks of every operator-supplied string. \<open>main\<close>
  tests \<open>if args.force_distro\<close>, and an empty string is false in Python: with
  \<open>--force-distro ""\<close> on a Fedora host the distribution of the run stays fedora, not
  the (lowered) empty string, and although the empty string is none of the five names the
  run installs with \<open>sudo dnf install -y vkbasalt\<close>.
\<close>

theorem forced_empty_distro_counterexample:
  "force_distro (default_args\<lparr>force_distro := Some []\<rparr>) = Some [] \<and>
   lower [] \<notin> set [''debian'', ''fedora'', ''arch'', ''void'', ''solus''] \<and>
   fst (run_distro (fedora_host ''x86_64'' nothing 0) (default_args\<lparr>force_distro := Some []\<rparr>)
          (snd (configure (default_args\<lparr>force_distro := Some []\<rparr>)))) = ''fedora'' \<and>
   ''fedora'' \<noteq> lower [] \<and>
   cmds (snd (main (fedora_host ''x86_64'' nothing 0) (default_args\<lparr>force_distro := Some []\<rparr>))) =
     [[''sudo'', ''dnf'', ''install'', ''-y'', ''vkbasalt'']]"
  by code_simp

text \<open>
  C10, amended: for every non-empty operator-supplied \<open>--force-distro\<close> string, the
  distribution of the run is the lowered string, used verbatim, whether or not it is one
  of the known families; an empty string leaves the detected distribution in place.
  Whenever the value of a non-empty string is none of debian, fedora, arch, void, solus,
  the install dispatch and the uninstall dispatch both take their last branch, which only
  logs that the distribution is unsupported and runs no command, and a run without
  \<open>--flatpak\<close> runs no command at all.
\<close>

theorem forced_distro_verbatim:
  assumes "force_distro a = Some s"
  shows "(s \<noteq> [] \<longrightarrow> fst (run_distro w a t) = lower s) \<and>
         (s = [] \<longrightarrow> fst (run_distro w a t) = fst (detect_distro w t)) \<and>
         (s \<noteq> [] \<and> lower s \<notin> set [''debian'', ''fedora'', ''arch'', ''void'', ''solus'']
            \<longrightarrow>
            install_dispatch w (lower s) h t' =
              (Inr (), t' @ [Log ''Unsupported Linux distribution. Cannot install vkbasalt automatically.'']) \<and>
            cmds (snd (install_dispatch w (lower s) h t')) = cmds t' \<and>
            uninstall_dispatch w (lower s) h t' =
              (Inr (), t' @ [Log ''Unsupported Linux distribution. Cannot uninstall vkbasalt automatically.'']) \<and>
            cmds (snd (uninstall_dispatch w (lower s) h t')) = cmds t' \<and>
            (\<not> flatpak a \<longrightarrow> cmds (snd (main w a)) = []))"
proof (intro conjI impI)
  assume "s \<noteq> []"
  with assms show "fst (run_distro w a t) = lower s"
    by (rule run_distro_forced)
next
  assume "s = []"
  with assms show "fst (run_distro w a t) = fst (detect_distro w t)"
    by (simp add: run_distro_def case_prod_beta)
next
  assume h: "s \<noteq> [] \<and> lower s \<notin> set [''debian'', ''fedora'', ''arch'', ''void'', ''solus'']"
  then have o: "lower s \<notin> set [''debian'', ''fedora'', ''arch'', ''void'', ''solus'']" ..
  show "install_dispatch w (lower s) h t' =
          (Inr (), t' @ [Log ''Unsupported Linux distribution. Cannot install vkbasalt automatically.''])"
    by (rule install_dispatch_unsupported [OF o])
  show "cmds (snd (install_dispatch w (lower s) h t')) = cmds t'"
    by (simp add: install_dispatch_unsupported [OF o] cmds_append)
  show "uninstall_dispatch w (lower s) h t' =
          (Inr (), t' @ [Log ''Unsupported Linux distribution. Cannot uninstall vkbasalt automatically.''])"
    by (rule uninstall_dispatch_unsupported [OF o])
  show "cmds (snd (uninstall_dispatch w (lower s) h t')) = cmds t'"
    by (simp add: uninstall_dispatch_unsupported [OF o] cmds_append)
  assume nf: "\<not> flatpak a"
  from h assms have "fst (run_distro w a (snd (configure a))) = lower s"
    by (simp add: run_distro_forced)
  from main_unsupported_cmds [OF o nf this] show "cmds (snd (main w a)) = []" .
qed

text \<open>A forced name outside the families, a forced supported name that differs from the
  detected one, and the empty string.\<close>

theorem forced_distro_verbatim_witness:
  "lower ''Gentoo'' = ''gentoo'' \<and>
   ''gentoo'' \<notin> set [''debian'', ''fedora'', ''arch'', ''void'', ''solus''] \<and>
   fst (run_distro (fedora_host ''x86_64'' nothing 0) (default_args\<lparr>force_distro := Some ''Gentoo''\<rparr>) []) =
     ''gentoo'' \<and>
   install_dispatch (fedora_host ''x86_64'' nothing 0) ''gentoo'' [] [] =
     (Inr (), [Log ''Unsupported Linux distribution. Cannot install vkbasalt automatically.'']) \<and>
   uninstall_dispatch (fedora_host ''x86_64'' nothing 0) ''gentoo'' [] [] =
     (Inr (), [Log ''Unsupported Linux distribution. Cannot uninstall vkbasalt automatically.'']) \<and>
   cmds (snd (main (fedora_host ''x86_64'' nothing 0)
                (default_args\<lparr>force_distro := Some ''Gentoo''\<rparr>))) = [] \<and>
   fst (detect_distro (fedora_host ''x86_64'' nothing 0) []) = ''fedora'' \<and>
   fst (run_distro (fedora_host ''x86_64'' nothing 0) (default_args\<lparr>force_distro := Some ''Arch''\<rparr>) []) =
     ''arch'' \<and>
   fst (run_distro (fedora_host ''x86_64'' nothing 0) (default_args\<lparr>force_distro := Some []\<rparr>) []) =
     ''fedora''"
proof -
  let ?A = "default_args\<lparr>force_distro := Some ''Gentoo''\<rparr>"
  let ?B = "default_args\<lparr>force_distro := Some ''Arch''\<rparr>"
  let ?E = "default_args\<lparr>force_distro := Some []\<rparr>"
  have f: "force_distro ?A = Some ''Gentoo''" "force_distro ?B = Some ''Arch''"
    "force_distro ?E = Some []"
    and nf: "\<not> flatpak ?A"
    by (simp_all add: default_args_def)
  have ne: "''Gentoo'' \<noteq> []" "''Arch'' \<noteq> []" by simp_all
  have l: "lower ''Gentoo'' = ''gentoo''" and la: "lower ''Arch'' = ''arch''" by code_simp+
  have o: "lower ''Gentoo'' \<notin> set [''debian'', ''fedora'', ''arch'', ''void'', ''solus'']"
    unfolding l by simp
  have dd: "fst (detect_distro (fedora_host ''x86_64'' nothing 0) []) = ''fedora''"
    by code_simp
  from forced_distro_verbatim [OF f(1), of "fedora_host ''x86_64'' nothing 0" "[]" "[]" "[]"]
    ne(1) nf l o
  have a: "fst (run_distro (fedora_host ''x86_64'' nothing 0) ?A []) = ''gentoo''"
    "install_dispatch (fedora_host ''x86_64'' nothing 0) ''gentoo'' [] [] =
       (Inr (), [Log ''Unsupported Linux distribution. Cannot install vkbasalt automatically.''])"
    "uninstall_dispatch (fedora_host ''x86_64'' nothing 0) ''gentoo'' [] [] =
       (Inr (), [Log ''Unsupported Linux distribution. Cannot uninstall vkbasalt automatically.''])"
    "cmds (snd (main (fedora_host ''x86_64'' nothing 0) ?A)) = []"
    by simp_all
  from forced_distro_verbatim [OF f(2), of "fedora_host ''x86_64'' nothing 0" "[]"] ne(2) la
  have b: "fst (run_distro (fedora_host ''x86_64'' nothing 0) ?B []) = ''arch''"
    by simp
  from forced_distro_verbatim [OF f(3), of "fedora_host ''x86_64'' nothing 0" "[]"] dd
  have c: "fst (run_distro (fedora_host ''x86_64'' nothing 0) ?E []) = ''fedora''"
    by simp
  from l o a dd b c show ?thesis by simp
qed

end
